theory Spec2Isabelle
  imports Complex_Main "HOL-Library.Word" "HOL-Library.Signed_Division" "HOL-Library.Multiset"
    "HOL-Library.Sublist"
begin

section \<open>Machine integers and run-time failures\<close>

text \<open>
  Go's \<open>int64\<close> is a 64-bit two's-complement integer: \<open>+\<close>, \<open>-\<close> and \<open>*\<close> wrap around,
  \<open>/\<close> and \<open>%\<close> truncate towards zero, comparisons are signed, and a division by zero
  panics.  The arithmetic of the splitter is modelled on \<open>64 word\<close>; the two division
  operators are written out through the signed reading \<open>sint\<close>.
\<close>

type_synonym int64 = "64 word"

datatype panic = DivideByZero | IndexOutOfRange | NilDereference | TypeAssertion

text \<open>A Go \<open>error\<close> value is represented by its message; a panic is kept apart from it.\<close>

datatype error = Panic panic | Err string

definition quo :: "int64 \<Rightarrow> int64 \<Rightarrow> int64" where
  "quo a b = word_of_int (sint a sdiv sint b)"

definition rem :: "int64 \<Rightarrow> int64 \<Rightarrow> int64" where
  "rem a b = word_of_int (sint a smod sint b)"

section \<open>Requests\<close>

text \<open>\<open>queryRangeRequest\<close>: times in milliseconds since the epoch, step in milliseconds.\<close>

record queryRangeRequest =
  start :: int64
  end' :: int64
  step :: int64
  timeout :: int64
  query :: string

section \<open>The splitter\<close>

definition millisecondPerDay :: int64 where
  "millisecondPerDay = 86400000"

text \<open>
  \<open>nextDayBoundary\<close>: "round up to the step before the next day boundary".  The
  expression \<open>t % millisecondPerDay % step\<close> panics when \<open>step\<close> is zero.
\<close>

definition nextDayBoundary :: "int64 \<Rightarrow> int64 \<Rightarrow> error + int64" where
  "nextDayBoundary t stp =
     (if stp = 0 then Inl (Panic DivideByZero)
      else
        let offsetToDayBoundary = stp - rem (rem t millisecondPerDay) stp;
            t' = (quo t millisecondPerDay + 1) * millisecondPerDay
        in Inr (t' - offsetToDayBoundary))"

text \<open>
  The loop of \<open>splitQuery\<close>, with the loop variable \<open>start\<close> and the slice \<open>reqs\<close> as
  arguments.  The loop need not end, so the result is an option: \<open>None\<close> is a run that
  never returns.  Each sub-request is built from four fields; \<open>timeout\<close> is left at its
  zero value.
\<close>

partial_function (option) splitQuery_loop ::
  "queryRangeRequest \<Rightarrow> int64 \<Rightarrow> queryRangeRequest list \<Rightarrow> (error + queryRangeRequest list) option"
where
  "splitQuery_loop r st reqs =
     (if st <s end' r then
        (case nextDayBoundary st (step r) of
           Inl e \<Rightarrow> Some (Inl e)
         | Inr boundary \<Rightarrow>
             splitQuery_loop r (boundary + step r)
               (reqs @ [\<lparr> start = st,
                          end' = (if end' r \<le>s boundary + step r then end' r else boundary),
                          step = step r, timeout = 0, query = query r \<rparr>]))
      else Some (Inr reqs))"

definition splitQuery :: "queryRangeRequest \<Rightarrow> (error + queryRangeRequest list) option" where
  "splitQuery r = splitQuery_loop r (start r) []"

text \<open>
  How a list of sub-requests covers a request from \<open>st\<close> on: it is empty exactly when
  \<open>st\<close> is not before the end; otherwise it begins at \<open>st\<close>, ends at the end of the request,
  every element carries the request's step and query, and each next element starts one step
  after the end of the one before (\<open>chained\<close>).
\<close>

fun chained :: "int64 \<Rightarrow> queryRangeRequest list \<Rightarrow> bool" where
  "chained stp (x # y # zs) = (start y = end' x + stp \<and> chained stp (y # zs))"
| "chained stp _ = True"

definition covers :: "queryRangeRequest \<Rightarrow> int64 \<Rightarrow> queryRangeRequest list \<Rightarrow> bool" where
  "covers r st T \<longleftrightarrow>
     (T = [] \<longleftrightarrow> \<not> st <s end' r)
   \<and> (T \<noteq> [] \<longrightarrow> start (hd T) = st \<and> end' (last T) = end' r)
   \<and> (\<forall>x\<in>set T. step x = step r \<and> query x = query r \<and> timeout x = 0)
   \<and> chained (step r) T"

section \<open>Responses\<close>

text \<open>
  The value types come from the Prometheus client library.  A \<open>float64\<close> is kept as its
  64-bit pattern: the middleware copies sample values and never computes with them.
  \<open>model.Vector\<close> and \<open>model.Matrix\<close> are slices of pointers, so an element may be
  \<open>nil\<close> (\<open>None\<close>).  \<open>model.Value\<close> is an interface: \<open>NoValue\<close> is its \<open>nil\<close>.
\<close>

type_synonym float64 = "64 word"
type_synonym Metric = "(string \<times> string) list"

datatype SamplePair = SamplePair int64 float64
datatype Sample = Sample Metric float64 int64
datatype SampleStream = SampleStream Metric "SamplePair list"

datatype Value =
    NoValue
  | Scalar float64 int64
  | StringValue string int64
  | Vector "Sample option list"
  | Matrix "SampleStream option list"

datatype ValueType = ValNone | ValScalar | ValVector | ValMatrix | ValString

text \<open>\<open>stats.QueryStats\<close> is a struct of \<open>float64\<close> timings, kept as the list of their values.\<close>

datatype QueryStats = QueryStats "float64 list"

record queryRangeResponse =
  Type :: ValueType
  Stats :: "QueryStats option"
  Result :: Value

text \<open>\<open>response\<close>: what one sub-request sends back on the channel.\<close>

record response =
  req :: queryRangeRequest
  resp :: "queryRangeResponse option"
  err :: "string option"

section \<open>The merger\<close>

text \<open>
  \<open>vectorMerge\<close>: the loop appends every response's vector.  The type assertion
  \<open>resp.resp.Result.(model.Vector)\<close> has no second result, so it panics on any other value.
\<close>

fun vectorMerge_loop :: "response list \<Rightarrow> Sample option list \<Rightarrow> error + Sample option list" where
  "vectorMerge_loop [] output = Inr output"
| "vectorMerge_loop (r # rs) output =
     (case resp r of
        None \<Rightarrow> Inl (Panic NilDereference)
      | Some q \<Rightarrow>
          (case Result q of
             Vector v \<Rightarrow> vectorMerge_loop rs (output @ v)
           | _ \<Rightarrow> Inl (Panic TypeAssertion)))"

definition vectorMerge :: "response list \<Rightarrow> error + queryRangeResponse" where
  "vectorMerge resps =
     (case vectorMerge_loop resps [] of
        Inl e \<Rightarrow> Inl e
      | Inr output \<Rightarrow> Inr \<lparr> Type = ValVector, Stats = None, Result = Vector output \<rparr>)"

text \<open>
  \<open>matrixMerge\<close>.  The Go map \<open>output\<close> is an association list in insertion order.
  \<open>Metric.String\<close> belongs to the library and is the parameter \<open>key\<close>; the order in which
  \<open>range\<close> visits a map is not specified and is the parameter \<open>mapOrder\<close>.  A stream met
  again under the same key has its values appended to the stream stored first.
\<close>

fun assign :: "string \<Rightarrow> 'v \<Rightarrow> (string \<times> 'v) list \<Rightarrow> (string \<times> 'v) list" where
  "assign k v [] = [(k, v)]"
| "assign k v ((k', v') # kvs) = (if k = k' then (k, v) # kvs else (k', v') # assign k v kvs)"

fun matrixMerge_streams ::
  "(Metric \<Rightarrow> string) \<Rightarrow> SampleStream option list \<Rightarrow> (string \<times> SampleStream) list
    \<Rightarrow> error + (string \<times> SampleStream) list"
where
  "matrixMerge_streams key [] output = Inr output"
| "matrixMerge_streams key (None # streams) output = Inl (Panic NilDereference)"
| "matrixMerge_streams key (Some (SampleStream metric vals) # streams) output =
     (case map_of output (key metric) of
        None \<Rightarrow> matrixMerge_streams key streams (assign (key metric) (SampleStream metric vals) output)
      | Some (SampleStream emetric evals) \<Rightarrow>
          matrixMerge_streams key streams
            (assign (key metric) (SampleStream emetric (evals @ vals)) output))"

fun matrixMerge_loop ::
  "(Metric \<Rightarrow> string) \<Rightarrow> response list \<Rightarrow> (string \<times> SampleStream) list
    \<Rightarrow> error + (string \<times> SampleStream) list"
where
  "matrixMerge_loop key [] output = Inr output"
| "matrixMerge_loop key (r # rs) output =
     (case resp r of
        None \<Rightarrow> Inl (Panic NilDereference)
      | Some q \<Rightarrow>
          (case Result q of
             Matrix matrix \<Rightarrow>
               (case matrixMerge_streams key matrix output of
                  Inl e \<Rightarrow> Inl e
                | Inr output' \<Rightarrow> matrixMerge_loop key rs output')
           | _ \<Rightarrow> Inl (Panic TypeAssertion)))"

text \<open>
  \<open>make(model.Matrix, len(output))\<close> builds a slice of \<open>len(output)\<close> nil pointers, and the
  streams are appended after them.
\<close>

definition matrixMerge ::
  "(Metric \<Rightarrow> string) \<Rightarrow> ((string \<times> SampleStream) list \<Rightarrow> (string \<times> SampleStream) list)
    \<Rightarrow> response list \<Rightarrow> error + queryRangeResponse"
where
  "matrixMerge key mapOrder resps =
     (case matrixMerge_loop key resps [] of
        Inl e \<Rightarrow> Inl e
      | Inr output \<Rightarrow>
          Inr \<lparr> Type = ValMatrix, Stats = None,
                Result = Matrix (replicate (length output) None @ map (\<lambda>(k, stream). Some stream) (mapOrder output)) \<rparr>)"

section \<open>The fan-out executor\<close>

text \<open>
  The gathering loop of \<open>splitByDay.Do\<close> receives one \<open>response\<close> per sub-request, in the
  order of arrival.  Its state is the slice \<open>responses\<close>, the variable \<open>firstErr\<close> and
  whether \<open>cancel()\<close> has been called.
\<close>

record gathered =
  responses :: "response list"
  firstErr :: "string option"
  cancelled :: bool

fun gather :: "response list \<Rightarrow> gathered \<Rightarrow> gathered" where
  "gather [] g = g"
| "gather (x # arrivals) g =
     (if err x \<noteq> None then
        (if firstErr g \<noteq> None
         then gather arrivals (g\<lparr> firstErr := err x, cancelled := True \<rparr>)
         else gather arrivals g)
      else gather arrivals (g\<lparr> responses := responses g @ [x] \<rparr>))"

text \<open>
  The second half of \<open>splitByDay.Do\<close>: sort by the start of the sub-request, then switch on
  the dynamic type of the first result.  \<open>responses[0]\<close> panics on an empty slice.
  (\<open>sort.Sort\<close> is not stable; the sort of the model is, which makes no difference when the
  starts are distinct.)
\<close>

definition byFirstTime :: "response list \<Rightarrow> response list" where
  "byFirstTime rs = sort_key (\<lambda>x. sint (start (req x))) rs"

definition mergeResponses ::
  "(Metric \<Rightarrow> string) \<Rightarrow> ((string \<times> SampleStream) list \<Rightarrow> (string \<times> SampleStream) list)
    \<Rightarrow> response list \<Rightarrow> error + queryRangeResponse"
where
  "mergeResponses key mapOrder rs =
     (case byFirstTime rs of
        [] \<Rightarrow> Inl (Panic IndexOutOfRange)
      | first # rest \<Rightarrow>
          (case resp first of
             None \<Rightarrow> Inl (Panic NilDereference)
           | Some q \<Rightarrow>
               (case Result q of
                  Vector v \<Rightarrow> vectorMerge (first # rest)
                | Matrix m \<Rightarrow> matrixMerge key mapOrder (first # rest)
                | _ \<Rightarrow> Inl (Err ''unexpected response type''))))"

text \<open>
  \<open>splitByDay.Do\<close>.  \<open>downstream\<close> is the next middleware, \<open>arrival\<close> the order in which the
  goroutines deliver (a permutation of what was sent).  \<open>None\<close> is a run in which
  \<open>splitQuery\<close> never returns.
\<close>

definition Do ::
  "(queryRangeRequest \<Rightarrow> queryRangeResponse option \<times> string option)
    \<Rightarrow> (response list \<Rightarrow> response list)
    \<Rightarrow> (Metric \<Rightarrow> string) \<Rightarrow> ((string \<times> SampleStream) list \<Rightarrow> (string \<times> SampleStream) list)
    \<Rightarrow> queryRangeRequest \<Rightarrow> (error + queryRangeResponse) option"
where
  "Do downstream arrival key mapOrder r =
     (case splitQuery r of
        None \<Rightarrow> None
      | Some (Inl e) \<Rightarrow> Some (Inl e)
      | Some (Inr reqs) \<Rightarrow>
          (let sent = map (\<lambda>q. \<lparr> req = q, resp = fst (downstream q), err = snd (downstream q) \<rparr>) reqs;
               g = gather (arrival sent) \<lparr> responses = [], firstErr = None, cancelled = False \<rparr>
           in Some (case firstErr g of
                      Some e \<Rightarrow> Inl (Err e)
                    | None \<Rightarrow> mergeResponses key mapOrder (responses g))))"

text \<open>
  \<open>Value_Type\<close> is the library's method \<open>Value.Type()\<close>; \<open>resultType\<close> is the dynamic
  type of a response's result, the thing the type switch of \<open>Do\<close> looks at.
\<close>

fun Value_Type :: "Value \<Rightarrow> ValueType" where
  "Value_Type NoValue = ValNone"
| "Value_Type (Scalar v t) = ValScalar"
| "Value_Type (StringValue s t) = ValString"
| "Value_Type (Vector v) = ValVector"
| "Value_Type (Matrix m) = ValMatrix"


section \<open>The wire format\<close>

text \<open>
  A JSON text is kept as its tree; a number keeps its literal.  The decoders and encoders
  of the Prometheus types (\<open>model.Vector\<close>, \<open>model.Matrix\<close>, \<open>stats.QueryStats\<close>) belong to
  the libraries and are parameters, gathered in \<open>jsonlib\<close>.
\<close>

datatype json =
    JNull
  | JBool bool
  | JNumber string
  | JString string
  | JArray "json list"
  | JObject "(string \<times> json) list"

record jsonlib =
  unmarshalVector :: "json \<Rightarrow> error + Sample option list"
  unmarshalMatrix :: "json \<Rightarrow> error + SampleStream option list"
  unmarshalStats :: "json \<Rightarrow> error + QueryStats option"
  marshalValue :: "Value \<Rightarrow> error + json"
  marshalStats :: "QueryStats \<Rightarrow> error + json"

record httpRequest =
  Method :: string
  Path :: string
  Query :: "(string \<times> string) list"

record httpResponse =
  StatusCode :: nat
  Header :: "(string \<times> string) list"
  Body :: json

text \<open>\<open>ValueType.String\<close> and \<open>ValueType.UnmarshalJSON\<close> of the library; \<open>quoted\<close> is \<open>%q\<close> on a
  string that needs no escape.\<close>

definition quoted :: "string \<Rightarrow> string" where
  "quoted s = CHR 0x22 # s @ [CHR 0x22]"

fun ValueType_String :: "ValueType \<Rightarrow> string" where
  "ValueType_String ValNone = ''<ValNone>''"
| "ValueType_String ValScalar = ''scalar''"
| "ValueType_String ValVector = ''vector''"
| "ValueType_String ValMatrix = ''matrix''"
| "ValueType_String ValString = ''string''"

definition ValueType_ofString :: "string \<Rightarrow> error + ValueType" where
  "ValueType_ofString s =
     (if s = ''<ValNone>'' then Inr ValNone
      else if s = ''scalar'' then Inr ValScalar
      else if s = ''vector'' then Inr ValVector
      else if s = ''matrix'' then Inr ValMatrix
      else if s = ''string'' then Inr ValString
      else Inl (Err (''unknown value type '' @ quoted s)))"

fun ValueType_UnmarshalJSON :: "json \<Rightarrow> error + ValueType" where
  "ValueType_UnmarshalJSON (JString s) = ValueType_ofString s"
| "ValueType_UnmarshalJSON JNull = ValueType_ofString []"
| "ValueType_UnmarshalJSON _ = Inl (Err ''json: cannot unmarshal into Go value of type string'')"

text \<open>
  \<open>json.Unmarshal\<close> into the anonymous struct \<open>v\<close> of \<open>UnmarshalJSON\<close>: the keys
  \<open>resultType\<close>, \<open>stats\<close> and \<open>result\<close> are matched without regard to (ASCII) case, any other
  key is skipped, and \<open>result\<close> is kept raw.
\<close>

record wire =
  vType :: ValueType
  vStats :: "QueryStats option"
  vResult :: "json option"

definition toLower :: "char \<Rightarrow> char" where
  "toLower c =
     (case map_of (zip ''ABCDEFGHIJKLMNOPQRSTUVWXYZ'' ''abcdefghijklmnopqrstuvwxyz'') c of
        None \<Rightarrow> c
      | Some l \<Rightarrow> l)"

fun unmarshalFields :: "jsonlib \<Rightarrow> (string \<times> json) list \<Rightarrow> wire \<Rightarrow> error + wire" where
  "unmarshalFields lib [] v = Inr v"
| "unmarshalFields lib ((k, j) # kvs) v =
     (if map toLower k = ''resulttype'' then
        (case ValueType_UnmarshalJSON j of
           Inl e \<Rightarrow> Inl e
         | Inr t \<Rightarrow> unmarshalFields lib kvs (v\<lparr> vType := t \<rparr>))
      else if map toLower k = ''stats'' then
        (case unmarshalStats lib j of
           Inl e \<Rightarrow> Inl e
         | Inr s \<Rightarrow> unmarshalFields lib kvs (v\<lparr> vStats := s \<rparr>))
      else if map toLower k = ''result'' then unmarshalFields lib kvs (v\<lparr> vResult := Some j \<rparr>)
      else unmarshalFields lib kvs v)"

definition unmarshalWire :: "jsonlib \<Rightarrow> json \<Rightarrow> error + wire" where
  "unmarshalWire lib b =
     (case b of
        JObject kvs \<Rightarrow> unmarshalFields lib kvs \<lparr> vType = ValNone, vStats = None, vResult = None \<rparr>
      | JNull \<Rightarrow> Inr \<lparr> vType = ValNone, vStats = None, vResult = None \<rparr>
      | _ \<Rightarrow> Inl (Err ''json: cannot unmarshal into Go value of type struct''))"

text \<open>\<open>queryRangeResponse.UnmarshalJSON\<close>.  An absent \<open>result\<close> leaves the raw message empty,
  which the second \<open>json.Unmarshal\<close> rejects.\<close>

definition UnmarshalJSON :: "jsonlib \<Rightarrow> json \<Rightarrow> error + queryRangeResponse" where
  "UnmarshalJSON lib b =
     (case unmarshalWire lib b of
        Inl e \<Rightarrow> Inl e
      | Inr v \<Rightarrow>
          (case vType v of
             ValVector \<Rightarrow>
               (case vResult v of
                  None \<Rightarrow> Inl (Err ''unexpected end of JSON input'')
                | Some raw \<Rightarrow>
                    (case unmarshalVector lib raw of
                       Inl e \<Rightarrow> Inl e
                     | Inr vv \<Rightarrow> Inr \<lparr> Type = ValVector, Stats = vStats v, Result = Vector vv \<rparr>))
           | ValMatrix \<Rightarrow>
               (case vResult v of
                  None \<Rightarrow> Inl (Err ''unexpected end of JSON input'')
                | Some raw \<Rightarrow>
                    (case unmarshalMatrix lib raw of
                       Inl e \<Rightarrow> Inl e
                     | Inr mv \<Rightarrow> Inr \<lparr> Type = ValMatrix, Stats = vStats v, Result = Matrix mv \<rparr>))
           | t \<Rightarrow> Inl (Err (''unexpected value type '' @ quoted (ValueType_String t)))))"

text \<open>
  \<open>toHTTPResponse\<close>: the response goes out inside an \<open>apiResponse\<close> with status
  \<open>success\<close>; \<open>errorType\<close> and \<open>error\<close> are empty and omitted, \<open>stats\<close> is omitted when nil.
\<close>

definition marshalResponse :: "jsonlib \<Rightarrow> queryRangeResponse \<Rightarrow> error + json" where
  "marshalResponse lib q =
     (case (case Stats q of
              None \<Rightarrow> Inr []
            | Some s \<Rightarrow> (case marshalStats lib s of Inl e \<Rightarrow> Inl e | Inr j \<Rightarrow> Inr [(''stats'', j)])) of
        Inl e \<Rightarrow> Inl e
      | Inr stats \<Rightarrow>
          (case marshalValue lib (Result q) of
             Inl e \<Rightarrow> Inl e
           | Inr j \<Rightarrow>
               Inr (JObject ([(''resultType'', JString (ValueType_String (Type q)))] @ stats
                             @ [(''result'', j)]))))"

definition toHTTPResponse :: "jsonlib \<Rightarrow> queryRangeResponse \<Rightarrow> error + httpResponse" where
  "toHTTPResponse lib q =
     (case marshalResponse lib q of
        Inl e \<Rightarrow> Inl e
      | Inr d \<Rightarrow>
          Inr \<lparr> StatusCode = 200,
                Header = [(''Content-Type'', ''application/json'')],
                Body = JObject [(''status'', JString ''success''), (''data'', d)] \<rparr>)"

section \<open>The request codec\<close>

text \<open>
  \<open>parseTime\<close>, \<open>parseDurationMs\<close>, \<open>encodeTime\<close> and \<open>encodeDurationMs\<close> compute with
  \<open>float64\<close>.  Their floating-point parts are parameters, gathered in \<open>numlib\<close>:
  \<^item> \<open>floatTime s\<close>: \<open>strconv.ParseFloat\<close> accepts \<open>s\<close>, and the milliseconds that \<open>math.Modf\<close>,
    \<open>time.Unix\<close> and \<open>UnixNano\<close> make of it;
  \<^item> \<open>rfc3339Time s\<close>: \<open>time.Parse(time.RFC3339Nano, s)\<close> accepts \<open>s\<close>, in milliseconds;
  \<^item> \<open>floatDurationMs s\<close>: \<open>ParseFloat\<close> accepts \<open>s\<close>; the inner \<open>None\<close> is the overflow
    branch, the inner \<open>Some\<close> the truncated product with 1000;
  \<^item> \<open>modelDurationMs s\<close>: \<open>model.ParseDuration\<close> accepts \<open>s\<close>, in milliseconds;
  \<^item> \<open>quote\<close>: the verb \<open>%q\<close>.
  The two encoders are arguments of \<open>toHTTPRequest\<close>.
\<close>

record numlib =
  floatTime :: "string \<Rightarrow> int64 option"
  rfc3339Time :: "string \<Rightarrow> int64 option"
  floatDurationMs :: "string \<Rightarrow> int64 option option"
  modelDurationMs :: "string \<Rightarrow> int64 option"
  quote :: "string \<Rightarrow> string"

definition parseTime :: "numlib \<Rightarrow> string \<Rightarrow> error + int64" where
  "parseTime nl s =
     (case floatTime nl s of
        Some t \<Rightarrow> Inr t
      | None \<Rightarrow>
          (case rfc3339Time nl s of
             Some t \<Rightarrow> Inr t
           | None \<Rightarrow> Inl (Err (''cannot parse '' @ quote nl s @ '' to a valid timestamp''))))"

definition parseDurationMs :: "numlib \<Rightarrow> string \<Rightarrow> error + int64" where
  "parseDurationMs nl s =
     (case floatDurationMs nl s of
        Some None \<Rightarrow> Inl (Err (''cannot parse '' @ quote nl s @ '' to a valid duration. It overflows int64''))
      | Some (Some d) \<Rightarrow> Inr d
      | None \<Rightarrow>
          (case modelDurationMs nl s of
             Some d \<Rightarrow> Inr d
           | None \<Rightarrow> Inl (Err (''cannot parse '' @ quote nl s @ '' to a valid duration''))))"

text \<open>\<open>r.FormValue\<close>: the first value of the key, the empty string when the key is absent.\<close>

definition FormValue :: "httpRequest \<Rightarrow> string \<Rightarrow> string" where
  "FormValue r k = (case map_of (Query r) k of None \<Rightarrow> [] | Some v \<Rightarrow> v)"

text \<open>
  \<open>parseQueryRangeRequest\<close>.  On an error the Go function also returns the request as
  far as it got; its only caller drops it.  The timeout is never set.
\<close>

definition parseQueryRangeRequest :: "numlib \<Rightarrow> httpRequest \<Rightarrow> error + queryRangeRequest" where
  "parseQueryRangeRequest nl r =
     (case parseTime nl (FormValue r ''start'') of
        Inl e \<Rightarrow> Inl e
      | Inr rstart \<Rightarrow>
          (case parseTime nl (FormValue r ''end'') of
             Inl e \<Rightarrow> Inl e
           | Inr rend \<Rightarrow>
               if rend <s rstart then Inl (Err ''end timestamp must not be before start time'')
               else
                 (case parseDurationMs nl (FormValue r ''step'') of
                    Inl e \<Rightarrow> Inl e
                  | Inr rstep \<Rightarrow>
                      if rstep \<le>s 0 then
                        Inl (Err ''zero or negative query resolution step widths are not accepted. Try a positive integer'')
                      else if 11000 <s quo (rend - rstart) rstep then
                        Inl (Err ''exceeded maximum resolution of 11,000 points per timeseries. Try decreasing the query resolution (?step=XX)'')
                      else
                        Inr \<lparr> start = rstart, end' = rend, step = rstep, timeout = 0,
                              query = FormValue r ''query'' \<rparr>)))"

text \<open>\<open>toHTTPRequest\<close>: \<open>url.Values.Encode\<close> writes the parameters sorted by key.  The
  request it builds always parses, so \<open>http.NewRequest\<close> returns no error.\<close>

definition toHTTPRequest ::
  "(int64 \<Rightarrow> string) \<Rightarrow> (int64 \<Rightarrow> string) \<Rightarrow> queryRangeRequest \<Rightarrow> httpRequest"
where
  "toHTTPRequest encodeTime encodeDurationMs q =
     \<lparr> Method = ''GET'', Path = ''/query_range'',
       Query = [(''end'', encodeTime (end' q)), (''query'', query q),
                (''start'', encodeTime (start q)), (''step'', encodeDurationMs (step q))] \<rparr>"

section \<open>The round trippers\<close>

text \<open>\<open>queryRangeTerminator.Do\<close>: the body of the downstream's answer is decoded straight
  into a \<open>queryRangeResponse\<close>.\<close>

definition queryRangeTerminator_Do ::
  "(int64 \<Rightarrow> string) \<Rightarrow> (int64 \<Rightarrow> string) \<Rightarrow> jsonlib
    \<Rightarrow> (httpRequest \<Rightarrow> error + httpResponse) \<Rightarrow> queryRangeRequest
    \<Rightarrow> error + queryRangeResponse"
where
  "queryRangeTerminator_Do encodeTime encodeDurationMs lib downstream r =
     (case downstream (toHTTPRequest encodeTime encodeDurationMs r) of
        Inl e \<Rightarrow> Inl e
      | Inr response \<Rightarrow> UnmarshalJSON lib (Body response))"

text \<open>
  \<open>queryRangeRoundTripper.RoundTrip\<close>, with the calls it makes written down: the first
  component of the result lists the calls to the downstream round tripper and to the
  middleware, in order.
\<close>

datatype call = DownstreamRoundTrip httpRequest | MiddlewareDo queryRangeRequest

definition RoundTrip ::
  "numlib \<Rightarrow> jsonlib \<Rightarrow> (httpRequest \<Rightarrow> error + httpResponse)
    \<Rightarrow> (queryRangeRequest \<Rightarrow> error + queryRangeResponse)
    \<Rightarrow> httpRequest \<Rightarrow> call list \<times> (error + httpResponse)"
where
  "RoundTrip nl lib downstream middleware r =
     (if \<not> suffix ''/query_range'' (Path r) then ([DownstreamRoundTrip r], downstream r)
      else
        (case parseQueryRangeRequest nl r of
           Inl e \<Rightarrow> ([], Inl e)
         | Inr request \<Rightarrow>
             (case middleware request of
                Inl e \<Rightarrow> ([MiddlewareDo request], Inl e)
              | Inr response \<Rightarrow> ([MiddlewareDo request], toHTTPResponse lib response))))"

text \<open>
  The library at the strings of the repository's request tests: what \<open>ParseFloat\<close> and the
  float arithmetic make of \<open>0\<close>, \<open>123\<close>, \<open>456\<close> and \<open>11001\<close> as times and of \<open>1\<close> and \<open>-1\<close>
  as steps; every other string of the tests (\<open>foo\<close>, \<open>bar\<close>, \<open>baz\<close>, the empty string) is
  rejected by all four parsers.
\<close>

definition testlib :: numlib where
  "testlib =
     \<lparr> floatTime = map_of [(''0'', 0), (''123'', 123000), (''456'', 456000), (''11001'', 11001000)],
       rfc3339Time = (\<lambda>s. None),
       floatDurationMs = map_of [(''1'', Some 1000), (''-1'', Some (- 1000))],
       modelDurationMs = (\<lambda>s. None),
       quote = quoted \<rparr>"

section \<open>The float arithmetic of the request codec\<close>

text \<open>
  The floating-point parts of \<open>numlib\<close> and the two encoders, written out.  A \<open>float64\<close> is
  kept here as the number it denotes: a finite value is a rational, \<open>Infinite True\<close> is
  \<open>+Inf\<close>, \<open>Infinite False\<close> is \<open>-Inf\<close>; zero has no sign.  \<open>RN\<close> is the rounding of IEEE 754
  binary64, to nearest with ties to even: the last place of the result has exponent
  \<open>ilog2 |x| - 52\<close>, not below \<open>-1074\<close> (the subnormal numbers), and a result of magnitude
  \<open>2 ^ 1024\<close> or more is infinite.  \<open>bits n\<close> is the length of \<open>n\<close> in binary, \<open>ilog2 x\<close> the
  integer part of the base-2 logarithm of a positive \<open>x\<close>, \<open>pow2 e\<close> is \<open>2\<close> to the \<open>e\<close>.
\<close>

datatype double = Finite rat | Infinite bool | NaN

fun bits :: "nat \<Rightarrow> nat" where
  "bits n = (if n = 0 then 0 else Suc (bits (n div 2)))"

declare bits.simps [simp del]

definition ilog2 :: "rat \<Rightarrow> int" where
  "ilog2 x = (if 1 \<le> x then int (bits (nat \<lfloor>x\<rfloor>)) - 1 else - int (bits (nat (\<lceil>1 / x\<rceil> - 1))))"

definition pow2 :: "int \<Rightarrow> rat" where
  "pow2 e = (if 0 \<le> e then 2 ^ nat e else 1 / 2 ^ nat (- e))"

definition roundEven :: "rat \<Rightarrow> int" where
  "roundEven x =
     (let f = \<lfloor>x\<rfloor>; d = x - of_int f
      in if d < 1 / 2 then f else if 1 / 2 < d then f + 1 else if even f then f else f + 1)"

definition RN :: "rat \<Rightarrow> double" where
  "RN x =
     (if x = 0 then Finite 0
      else
        let e = max (ilog2 \<bar>x\<bar> - 52) (- 1074);
            y = of_int (roundEven (x / pow2 e)) * pow2 e
        in if 2 ^ 1024 \<le> \<bar>y\<bar> then Infinite (0 < x) else Finite y)"

text \<open>
  The operations the source uses: the conversion \<open>float64(t)\<close>, the product with and the
  quotient by a positive constant (\<open>1e9\<close>, \<open>1000\<close>), \<open>math.Modf\<close>, and the conversion
  \<open>int64(f)\<close>, which truncates towards zero; where the value does not fit, Go leaves the
  result to the implementation (the parameter \<open>impl\<close>).  \<open>exceedsInt64 ts\<close> is the test
  \<open>ts > float64(math.MaxInt64) || ts < float64(math.MinInt64)\<close>, where
  \<open>float64(math.MaxInt64)\<close> is \<open>2 ^ 63\<close>.
\<close>

definition float64_of_int64 :: "int64 \<Rightarrow> double" where
  "float64_of_int64 t = RN (of_int (sint t))"

fun mulConst :: "double \<Rightarrow> rat \<Rightarrow> double" where
  "mulConst (Finite x) c = RN (x * c)"
| "mulConst (Infinite s) c = Infinite s"
| "mulConst NaN c = NaN"

fun divConst :: "double \<Rightarrow> rat \<Rightarrow> double" where
  "divConst (Finite x) c = RN (x / c)"
| "divConst (Infinite s) c = Infinite s"
| "divConst NaN c = NaN"

definition trunc :: "rat \<Rightarrow> int" where
  "trunc x = (if 0 \<le> x then \<lfloor>x\<rfloor> else \<lceil>x\<rceil>)"

fun Modf :: "double \<Rightarrow> double \<times> double" where
  "Modf (Finite x) = (Finite (of_int (trunc x)), Finite (x - of_int (trunc x)))"
| "Modf (Infinite s) = (Infinite s, NaN)"
| "Modf NaN = (NaN, NaN)"

fun int64_of_float64 :: "(double \<Rightarrow> int64) \<Rightarrow> double \<Rightarrow> int64" where
  "int64_of_float64 impl (Finite x) =
     (if - (2 ^ 63) \<le> trunc x \<and> trunc x < 2 ^ 63 then word_of_int (trunc x) else impl (Finite x))"
| "int64_of_float64 impl f = impl f"

fun exceedsInt64 :: "double \<Rightarrow> bool" where
  "exceedsInt64 (Finite x) = (2 ^ 63 < x \<or> x < - (2 ^ 63))"
| "exceedsInt64 (Infinite s) = True"
| "exceedsInt64 NaN = False"

text \<open>
  \<open>time.Unix(sec, nsec).UnixNano()\<close>: \<open>time.Unix\<close> carries the whole seconds of \<open>nsec\<close> over
  into \<open>sec\<close>, and \<open>UnixNano\<close> puts the two together again, in \<open>int64\<close>.
\<close>

definition UnixNano :: "int64 \<Rightarrow> int64 \<Rightarrow> int64" where
  "UnixNano sec nsec = sec * 1000000000 + nsec"

text \<open>
  The float branches of \<open>parseTime\<close> and \<open>parseDurationMs\<close> and the two encoders, as the
  source writes them, over \<open>strconv.ParseFloat\<close> and \<open>strconv.FormatFloat\<close> (the parameters
  \<open>parseFloat\<close>, \<open>formatFloat\<close>); \<open>floatlib\<close> makes a \<open>numlib\<close> of them.
\<close>

definition floatTime_src ::
  "(string \<Rightarrow> double option) \<Rightarrow> (double \<Rightarrow> int64) \<Rightarrow> string \<Rightarrow> int64 option"
where
  "floatTime_src parseFloat impl s =
     (case parseFloat s of
        None \<Rightarrow> None
      | Some t \<Rightarrow>
          (case Modf t of
             (sec, ns) \<Rightarrow>
               Some (quo (UnixNano (int64_of_float64 impl sec)
                                   (int64_of_float64 impl (mulConst ns 1000000000)))
                         1000000)))"

definition floatDurationMs_src ::
  "(string \<Rightarrow> double option) \<Rightarrow> (double \<Rightarrow> int64) \<Rightarrow> string \<Rightarrow> int64 option option"
where
  "floatDurationMs_src parseFloat impl s =
     (case parseFloat s of
        None \<Rightarrow> None
      | Some d \<Rightarrow>
          (let ts = mulConst d 1000
           in if exceedsInt64 ts then Some None else Some (Some (int64_of_float64 impl ts))))"

definition encodeTime_src :: "(double \<Rightarrow> string) \<Rightarrow> int64 \<Rightarrow> string" where
  "encodeTime_src formatFloat t = formatFloat (divConst (float64_of_int64 t) 1000)"

definition encodeDurationMs_src :: "(double \<Rightarrow> string) \<Rightarrow> int64 \<Rightarrow> string" where
  "encodeDurationMs_src formatFloat d = formatFloat (divConst (float64_of_int64 d) 1000)"

definition floatlib ::
  "(string \<Rightarrow> double option) \<Rightarrow> (double \<Rightarrow> int64) \<Rightarrow> (string \<Rightarrow> int64 option)
    \<Rightarrow> (string \<Rightarrow> int64 option) \<Rightarrow> (string \<Rightarrow> string) \<Rightarrow> numlib"
where
  "floatlib parseFloat impl rfc3339 modelDuration q =
     \<lparr> floatTime = floatTime_src parseFloat impl, rfc3339Time = rfc3339,
       floatDurationMs = floatDurationMs_src parseFloat impl, modelDurationMs = modelDuration,
       quote = q \<rparr>"

text \<open>
  \<open>strconv\<close> at three decimal texts: \<open>ParseFloat\<close> returns the \<open>float64\<close> nearest to the
  decimal value, and \<open>FormatFloat\<close> with precision \<open>-1\<close> the shortest decimal text that
  parses back to the same \<open>float64\<close>.
\<close>

definition exampleParseFloat :: "string \<Rightarrow> double option" where
  "exampleParseFloat =
     map_of [(''1536763606.001'', RN (1536763606001 / 1000)),
             (''1536763666.001'', RN (1536763666001 / 1000)),
             (''15'', RN 15)]"

definition exampleFormatFloat :: "double \<Rightarrow> string" where
  "exampleFormatFloat f =
     (if f = RN (1536763606001 / 1000) then ''1536763606.001''
      else if f = RN (1536763666001 / 1000) then ''1536763666.001''
      else if f = RN 15 then ''15''
      else [])"

section \<open>Truncated division on the integers\<close>


lemma smod_nonneg:
  fixes a b :: int
  assumes "0 < b" "0 \<le> a"
  shows "a smod b = a mod b" "0 \<le> a smod b" "a smod b \<le> a" "a smod b < b"
  using assms by (simp_all add: signed_modulo_int_def sgn_if zmod_le_nonneg_dividend)

lemma smod_nonpos:
  fixes a b :: int
  assumes "0 < b" "a \<le> 0"
  shows "a \<le> a smod b" "a smod b \<le> 0" "- b < a smod b"
proof -
  have "0 \<le> - a" using assms by simp
  then have "(- a) mod b \<le> - a" "0 \<le> (- a) mod b" "(- a) mod b < b"
    using assms by (simp_all add: zmod_le_nonneg_dividend)
  then show "a \<le> a smod b" "a smod b \<le> 0" "- b < a smod b"
    using assms by (simp_all add: signed_modulo_int_def sgn_if)
qed

lemma sdiv_nonneg:
  fixes a b :: int
  assumes "0 < b" "0 \<le> a"
  shows "a sdiv b = a div b"
  using assms by (simp add: signed_divide_int_def sgn_if)

lemma next_start_int:
  fixes t s :: int
  assumes "0 < s"
  shows "t < (t sdiv 86400000 + 1) * 86400000 + (t smod 86400000) smod s"
    and "(t sdiv 86400000 + 1) * 86400000 + (t smod 86400000) smod s < t + 2 * 86400000"
proof -
  define r where "r = t smod 86400000"
  define m where "m = r smod s"
  have eq: "t sdiv 86400000 * 86400000 + r = t"
    unfolding r_def by (rule sdiv_mult_smod_eq)
  have "0 < m - r + 86400000 \<and> m - r < 86400000"
  proof (cases "0 \<le> t")
    case True
    then have "0 \<le> r" "r < 86400000"
      unfolding r_def by (simp_all add: smod_nonneg)
    moreover from \<open>0 \<le> r\<close> have "0 \<le> m" "m \<le> r"
      unfolding m_def using assms smod_nonneg(2,3) [of s r] by simp_all
    ultimately show ?thesis by linarith
  next
    case False
    then have "r \<le> 0" "- 86400000 < r"
      unfolding r_def by (simp_all add: smod_nonpos)
    moreover from \<open>r \<le> 0\<close> have "r \<le> m" "m \<le> 0"
      unfolding m_def using assms smod_nonpos(1,2) [of s r] by simp_all
    ultimately show ?thesis by linarith
  qed
  then show "t < (t sdiv 86400000 + 1) * 86400000 + (t smod 86400000) smod s"
    and "(t sdiv 86400000 + 1) * 86400000 + (t smod 86400000) smod s < t + 2 * 86400000"
    using eq unfolding m_def r_def by (simp_all add: algebra_simps)
qed

lemma next_start_int_nonneg:
  fixes t s :: int
  assumes "0 < s" "0 \<le> t"
  shows "(t div 86400000 + 1) * 86400000 \<le> (t sdiv 86400000 + 1) * 86400000 + (t smod 86400000) smod s"
proof -
  have "0 \<le> t smod 86400000" using assms by (simp add: smod_nonneg)
  then have "0 \<le> (t smod 86400000) smod s" using assms by (simp add: smod_nonneg)
  then show ?thesis using assms by (simp add: sdiv_nonneg)
qed

lemma next_start_int_boundary:
  fixes t s :: int
  assumes "0 < s"
  shows "(t div 86400000 + 1) * 86400000 \<le> (t sdiv 86400000 + 1) * 86400000 + (t smod 86400000) smod s"
proof (cases "0 \<le> t")
  case True
  with assms show ?thesis by (rule next_start_int_nonneg)
next
  case False
  define r where "r = t smod 86400000"
  define m where "m = r smod s"
  have eq: "t sdiv 86400000 * 86400000 + r = t"
    unfolding r_def by (rule sdiv_mult_smod_eq)
  from False have "r \<le> 0"
    unfolding r_def by (simp add: smod_nonpos)
  then have "r \<le> m"
    unfolding m_def using assms smod_nonpos(1) [of s r] by simp
  moreover have "86400000 * (t div 86400000) + t mod 86400000 = t"
    by (rule mult_div_mod_eq)
  moreover have "0 \<le> t mod 86400000" by simp
  ultimately show ?thesis
    using eq unfolding m_def r_def by (simp add: algebra_simps)
qed

lemma sint_day [simp]: "sint millisecondPerDay = 86400000"
  by (simp add: millisecondPerDay_def)

lemma sint_wi_small:
  "- (2 ^ 63) \<le> x \<Longrightarrow> x < 2 ^ 63 \<Longrightarrow> sint (word_of_int x :: int64) = x"
  by (simp add: sint_sbintrunc' signed_take_bit_int_eq_self)

lemma rem_rem_day:
  assumes "0 < sint s"
  shows "rem (rem t millisecondPerDay) s = word_of_int ((sint t smod 86400000) smod sint s)"
proof -
  have "- 86400000 < sint t smod 86400000" "sint t smod 86400000 < 86400000"
    using smod_nonneg(2,4) [of 86400000 "sint t"] smod_nonpos(2,3) [of 86400000 "sint t"]
    by linarith+
  then have "sint (word_of_int (sint t smod 86400000) :: int64) = sint t smod 86400000"
    by (intro sint_wi_small) simp_all
  then show ?thesis by (simp add: rem_def)
qed

lemma next_start_word:
  assumes "0 < sint s"
  shows "nextDayBoundary t s = Inr b \<Longrightarrow>
    b + s = word_of_int ((sint t sdiv 86400000 + 1) * 86400000 + (sint t smod 86400000) smod sint s)"
  using assms
  apply (auto simp add: nextDayBoundary_def rem_rem_day quo_def Let_def split: if_splits)
  apply (simp add: millisecondPerDay_def wi_hom_syms)
  done

lemma next_start_sint:
  assumes s: "0 < sint s" and hi: "sint t + 2 * 86400000 < 2 ^ 63"
    and b: "nextDayBoundary t s = Inr b"
  shows "sint (b + s) = (sint t sdiv 86400000 + 1) * 86400000 + (sint t smod 86400000) smod sint s"
proof -
  let ?n = "(sint t sdiv 86400000 + 1) * 86400000 + (sint t smod 86400000) smod sint s"
  have lo: "- (2 ^ 63) \<le> sint t"
    using sint_ge [of t] by simp
  have "sint t < ?n" "?n < sint t + 2 * 86400000"
    using next_start_int [OF s, of "sint t"] by simp_all
  with lo hi have "- (2 ^ 63) \<le> ?n" "?n < 2 ^ 63"
    by linarith+
  then have "sint (word_of_int ?n :: int64) = ?n"
    by (rule sint_wi_small)
  then show ?thesis
    using next_start_word [OF s b] by simp
qed

lemma nextDayBoundary_Inr:
  "s \<noteq> 0 \<Longrightarrow> \<exists>b. nextDayBoundary t s = Inr b"
  by (simp add: nextDayBoundary_def Let_def)

lemma splitQuery_loop_returns:
  assumes s: "0 < sint (step r)" and hi: "sint (end' r) + 2 * 86400000 < 2 ^ 63"
  shows "\<exists>S. splitQuery_loop r st reqs = Some (Inr S)"
proof (induction "nat (sint (end' r) - sint st)" arbitrary: st reqs rule: less_induct)
  case less
  show ?case
  proof (cases "st <s end' r")
    case False
    then show ?thesis
      by (subst splitQuery_loop.simps) simp
  next
    case True
    from s have "step r \<noteq> 0" by auto
    then obtain b where b: "nextDayBoundary st (step r) = Inr b"
      using nextDayBoundary_Inr by blast
    from True hi have "sint st + 2 * 86400000 < 2 ^ 63"
      by (simp add: word_sless_alt)
    then have "sint (b + step r) =
        (sint st sdiv 86400000 + 1) * 86400000 + (sint st smod 86400000) smod sint (step r)"
      using next_start_sint [OF s _ b] by simp
    then have "sint st < sint (b + step r)"
      using next_start_int(1) [OF s, of "sint st"] by simp
    with True have "nat (sint (end' r) - sint (b + step r)) < nat (sint (end' r) - sint st)"
      by (simp add: word_sless_alt)
    from less [OF this] show ?thesis
      using True b by (subst splitQuery_loop.simps) simp
  qed
qed




lemmas ev = nextDayBoundary_def rem_def quo_def millisecondPerDay_def signed_modulo_int_def signed_divide_int_def word_sless_alt word_sle_eq

section \<open>The splitter: termination\<close>

lemma next_start_step1:
  "nextDayBoundary t 1 = Inr b \<Longrightarrow> b + 1 = (quo t millisecondPerDay + 1) * millisecondPerDay"
  by (auto simp add: nextDayBoundary_def rem_def Let_def signed_modulo_int_def)

lemma next_start_step1_ne: 
  "nextDayBoundary t 1 = Inr b \<Longrightarrow> b + 1 <s 9223372036854775807"
proof -
  assume "nextDayBoundary t 1 = Inr b"
  then have "b + 1 = (quo t millisecondPerDay + 1) * millisecondPerDay" by (rule next_start_step1)
  then have "even (b + 1)" by (simp add: millisecondPerDay_def)
  then have "b + 1 \<noteq> 9223372036854775807" by auto
  moreover have "b + 1 \<le>s 9223372036854775807"
    using sint_lt [of "b + 1"] by (simp add: word_sle_eq)
  ultimately show ?thesis by (simp add: word_sless_eq)
qed

lemma splitQuery_loop_diverges:
  assumes "splitQuery_loop r st reqs = Some y"
  shows "\<not> (end' r = 9223372036854775807 \<and> step r = 1 \<and> st <s end' r)"
proof (rule splitQuery_loop.raw_induct
    [where P = "\<lambda>r st reqs y. \<not> (end' r = 9223372036854775807 \<and> step r = 1 \<and> st <s end' r)",
     OF _ assms], goal_cases)
  case (1 f r st reqs y)
  show ?case
  proof
    assume h: "end' r = 9223372036854775807 \<and> step r = 1 \<and> st <s end' r"
    obtain b where b: "nextDayBoundary st 1 = Inr b"
      using nextDayBoundary_Inr [of 1 st] by auto
    then have lt: "b + 1 <s 9223372036854775807" by (rule next_start_step1_ne)
    let ?reqs = "reqs @ [\<lparr> start = st, end' = b, step = 1, timeout = 0, query = query r \<rparr>]"
    from lt have nle: "\<not> 9223372036854775807 \<le>s b + 1" by auto
    from h have e: "end' r = 9223372036854775807" and s1: "step r = 1"
      and l: "st <s 9223372036854775807" by (elim conjE, simp)+
    from 1(2) have "f r (b + 1) ?reqs = Some y"
      by (simp add: e s1 l b nle)
    then have "\<not> (end' r = 9223372036854775807 \<and> step r = 1 \<and> b + 1 <s end' r)"
      by (rule 1(1))
    with e s1 lt show False by simp
  qed
qed

text \<open>
  Counterexample to C10 as stated.  One millisecond below the largest \<open>int64\<close>, with step 1,
  the multiplication \<open>((t / millisecondPerDay) + 1) * millisecondPerDay\<close> wraps around: the
  next start is negative, hence below the current start, and the loop never reaches
  \<open>end\<close> (every next start is a multiple of the even number 86400000, \<open>end\<close> is odd).
\<close>

theorem splitQuery_overflow_counterexample:
  "0 <s step \<lparr> start = 9223372036854775806, end' = 9223372036854775807, step = 1, timeout = 0, query = ''foo'' \<rparr>
   \<and> nextDayBoundary 9223372036854775806 1 = Inr 9223372036915199999
   \<and> (9223372036915199999 + 1 :: int64) <s 9223372036854775806
   \<and> splitQuery \<lparr> start = 9223372036854775806, end' = 9223372036854775807, step = 1, timeout = 0, query = ''foo'' \<rparr> = None"
proof -
  let ?r = "\<lparr> start = 9223372036854775806, end' = 9223372036854775807, step = 1, timeout = 0, query = ''foo'' \<rparr>"
  have "splitQuery ?r = None"
  proof (cases "splitQuery ?r")
    case (Some y)
    then show ?thesis
      using splitQuery_loop_diverges [of ?r "start ?r" "[]" y]
      by (simp add: splitQuery_def word_sless_alt)
  qed simp
  moreover have "nextDayBoundary 9223372036854775806 1 = Inr 9223372036915199999"
    by (simp add: ev)
  ultimately show ?thesis by (simp add: word_sless_alt)
qed

text \<open>
  C10 (amended).  For every request with \<open>step > 0\<close> whose \<open>end\<close> lies at least two days
  below the largest \<open>int64\<close> (every timestamp the parser produces does), \<open>splitQuery\<close>
  returns a list, and at every loop iteration the next start
  \<open>nextDayBoundary(start, step) + step\<close> is strictly greater than the current start.
\<close>

theorem splitQuery_terminates:
  assumes "0 <s step r" and "sint (end' r) + 2 * 86400000 < 2 ^ 63"
  shows "(\<exists>S. splitQuery r = Some (Inr S)) \<and>
         (\<forall>st. st <s end' r \<longrightarrow> (\<exists>b. nextDayBoundary st (step r) = Inr b \<and> st <s b + step r))"
proof
  from assms(1) have s: "0 < sint (step r)" by (simp add: word_sless_alt)
  show "\<exists>S. splitQuery r = Some (Inr S)"
    unfolding splitQuery_def using s assms(2) by (rule splitQuery_loop_returns)
  show "\<forall>st. st <s end' r \<longrightarrow> (\<exists>b. nextDayBoundary st (step r) = Inr b \<and> st <s b + step r)"
  proof (intro allI impI)
    fix st assume lt: "st <s end' r"
    from s have "step r \<noteq> 0" by auto
    then obtain b where b: "nextDayBoundary st (step r) = Inr b"
      using nextDayBoundary_Inr by blast
    from lt assms(2) have "sint st + 2 * 86400000 < 2 ^ 63"
      by (simp add: word_sless_alt)
    then have "sint (b + step r) =
        (sint st sdiv 86400000 + 1) * 86400000 + (sint st smod 86400000) smod sint (step r)"
      using next_start_sint [OF s _ b] by simp
    then have "sint st < sint (b + step r)"
      using next_start_int(1) [OF s, of "sint st"] by simp
    with b show "\<exists>b. nextDayBoundary st (step r) = Inr b \<and> st <s b + step r"
      by (simp add: word_sless_alt)
  qed
qed

theorem splitQuery_terminates_witness:
  "0 <s step \<lparr> start = 10800000, end' = 259200000, step = 15000, timeout = 0, query = ''foo'' \<rparr>
   \<and> sint (end' \<lparr> start = 10800000, end' = 259200000, step = 15000, timeout = 0, query = ''foo'' \<rparr>) + 2 * 86400000 < 2 ^ 63
   \<and> (\<exists>S. splitQuery \<lparr> start = 10800000, end' = 259200000, step = 15000, timeout = 0, query = ''foo'' \<rparr> = Some (Inr S))
   \<and> (\<exists>b. nextDayBoundary 10800000 15000 = Inr b \<and> 10800000 <s b + 15000)"
proof -
  let ?r = "\<lparr> start = 10800000, end' = 259200000, step = 15000, timeout = 0, query = ''foo'' \<rparr>"
  have h1: "0 <s step ?r" by (simp add: word_sless_alt)
  have h2: "sint (end' ?r) + 2 * 86400000 < 2 ^ 63" by simp
  have h3: "(10800000 :: int64) <s end' ?r" by (simp add: word_sless_alt)
  from splitQuery_terminates [OF h1 h2]
  have ret: "\<exists>S. splitQuery ?r = Some (Inr S)"
    and inc: "\<forall>st. st <s end' ?r \<longrightarrow> (\<exists>b. nextDayBoundary st (step ?r) = Inr b \<and> st <s b + step ?r)"
    by blast+
  from inc h3 have "\<exists>b. nextDayBoundary 10800000 (step ?r) = Inr b \<and> 10800000 <s b + step ?r"
    by blast
  then have "\<exists>b. nextDayBoundary 10800000 15000 = Inr b \<and> 10800000 <s b + 15000"
    by simp
  with ret h1 h2 show ?thesis by blast
qed



section \<open>The splitter: what it returns\<close>

lemmas splitQuery_eval = splitQuery_def nextDayBoundary_def rem_def quo_def millisecondPerDay_def
  signed_modulo_int_def signed_divide_int_def word_sless_alt word_sle_eq

text \<open>
  C2 (amended).  If \<open>step > 0\<close>, \<open>start < end\<close> and \<open>end\<close> is no later than the first day
  boundary after \<open>start\<close> (and at least two days below the largest \<open>int64\<close>), then
  \<open>splitQuery\<close> returns exactly one sub-request, with the start, end, step and query of the
  input; its timeout is zero, since the sub-request is built without that field.
\<close>

theorem splitQuery_single_day:
  assumes stp: "0 <s step r" and lt: "start r <s end' r"
    and day: "sint (end' r) \<le> (sint (start r) div 86400000 + 1) * 86400000"
    and hi: "sint (end' r) + 2 * 86400000 < 2 ^ 63"
  shows "splitQuery r = Some (Inr [r\<lparr>timeout := 0\<rparr>])"
proof -
  from stp have s: "0 < sint (step r)" by (simp add: word_sless_alt)
  from s have "step r \<noteq> 0" by auto
  then obtain b where b: "nextDayBoundary (start r) (step r) = Inr b"
    using nextDayBoundary_Inr by blast
  from lt hi have "sint (start r) + 2 * 86400000 < 2 ^ 63"
    by (simp add: word_sless_alt)
  then have "sint (b + step r) = (sint (start r) sdiv 86400000 + 1) * 86400000
      + (sint (start r) smod 86400000) smod sint (step r)"
    using next_start_sint [OF s _ b] by simp
  with day next_start_int_boundary [OF s, of "sint (start r)"] have "sint (end' r) \<le> sint (b + step r)"
    by simp
  then have le: "end' r \<le>s b + step r" and nlt: "\<not> b + step r <s end' r"
    by (simp_all add: word_sle_eq word_sless_alt)
  have "splitQuery r = splitQuery_loop r (b + step r)
      [\<lparr> start = start r, end' = end' r, step = step r, timeout = 0, query = query r \<rparr>]"
    unfolding splitQuery_def using lt b le by (subst splitQuery_loop.simps) simp
  also have "\<dots> = Some (Inr [\<lparr> start = start r, end' = end' r, step = step r, timeout = 0, query = query r \<rparr>])"
    using nlt by (subst splitQuery_loop.simps) simp
  finally show ?thesis by simp
qed

theorem splitQuery_single_day_witness:
  "0 <s step \<lparr> start = 0, end' = 86400000, step = 15000, timeout = 0, query = ''foo'' \<rparr>
   \<and> (0 :: int64) <s 86400000
   \<and> sint (86400000 :: int64) \<le> (sint (0 :: int64) div 86400000 + 1) * 86400000
   \<and> sint (86400000 :: int64) + 2 * 86400000 < 2 ^ 63
   \<and> splitQuery \<lparr> start = 0, end' = 86400000, step = 15000, timeout = 0, query = ''foo'' \<rparr>
       = Some (Inr [\<lparr> start = 0, end' = 86400000, step = 15000, timeout = 0, query = ''foo'' \<rparr>])"
  using splitQuery_single_day [of "\<lparr> start = 0, end' = 86400000, step = 15000, timeout = 0, query = ''foo'' \<rparr>"]
  by (simp add: word_sless_alt word_sle_eq)

text \<open>
  Counterexample to C2 as stated.  A range of exactly one day that starts 15 s after midnight
  crosses a day boundary and is split in two; and an empty range (\<open>start = end\<close>) gives the
  empty list.  Both have \<open>step > 0\<close>, \<open>start \<le> end\<close> and \<open>end - start \<le> D\<close>.
\<close>

theorem splitQuery_single_day_counterexample:
  "0 <s step \<lparr> start = 15000, end' = 86415000, step = 15000, timeout = 0, query = ''foo'' \<rparr>
   \<and> (15000 :: int64) \<le>s 86415000
   \<and> (86415000 - 15000 :: int64) \<le>s millisecondPerDay
   \<and> splitQuery \<lparr> start = 15000, end' = 86415000, step = 15000, timeout = 0, query = ''foo'' \<rparr>
       = Some (Inr [\<lparr> start = 15000, end' = 86385000, step = 15000, timeout = 0, query = ''foo'' \<rparr>,
                    \<lparr> start = 86400000, end' = 86415000, step = 15000, timeout = 0, query = ''foo'' \<rparr>])
   \<and> splitQuery \<lparr> start = 15000, end' = 86415000, step = 15000, timeout = 0, query = ''foo'' \<rparr>
       \<noteq> Some (Inr [\<lparr> start = 15000, end' = 86415000, step = 15000, timeout = 0, query = ''foo'' \<rparr>])
   \<and> splitQuery \<lparr> start = 0, end' = 0, step = 15000, timeout = 0, query = ''foo'' \<rparr> = Some (Inr [])"
  by (simp add: splitQuery_eval splitQuery_loop.simps)

text \<open>
  What the loop does guarantee, whenever it returns: the sub-requests cover the request in
  the sense of \<open>covers\<close>.  Nothing in it speaks of the step grid.
\<close>

lemma covers_Nil: "\<not> st <s end' r \<Longrightarrow> covers r st []"
  by (simp add: covers_def)

lemma covers_Cons:
  assumes lt: "st <s end' r" and T: "covers r (b + step r) T"
  shows "covers r st
    (\<lparr> start = st, end' = (if end' r \<le>s b + step r then end' r else b),
       step = step r, timeout = 0, query = query r \<rparr> # T)"
proof (cases T)
  case Nil
  with T have "\<not> b + step r <s end' r" by (simp add: covers_def)
  then have "end' r \<le>s b + step r" by (simp add: word_sless_alt word_sle_eq)
  with Nil lt show ?thesis by (simp add: covers_def)
next
  case (Cons y zs)
  with T have "b + step r <s end' r" and y: "start y = b + step r" and l: "end' (last (y # zs)) = end' r"
    by (auto simp add: covers_def)
  then have "\<not> end' r \<le>s b + step r" by (simp add: word_sless_alt word_sle_eq)
  with Cons T y l lt show ?thesis by (simp add: covers_def)
qed

lemma splitQuery_loop_covers:
  assumes "splitQuery_loop r st reqs = Some y"
  shows "\<forall>S. y = Inr S \<longrightarrow> (\<exists>T. S = reqs @ T \<and> covers r st T)"
proof (rule splitQuery_loop.raw_induct
    [where P = "\<lambda>r st reqs y. \<forall>S. y = Inr S \<longrightarrow> (\<exists>T. S = reqs @ T \<and> covers r st T)",
     OF _ assms], goal_cases)
  case (1 f r st reqs y)
  show ?case
  proof (intro allI impI)
    fix S assume y: "y = Inr S"
    show "\<exists>T. S = reqs @ T \<and> covers r st T"
    proof (cases "st <s end' r")
      case False
      with 1(2) y have "S = reqs" by simp
      with False show ?thesis by (simp add: covers_Nil)
    next
      case True
      show ?thesis
      proof (cases "nextDayBoundary st (step r)")
        case (Inl e)
        with 1(2) True y show ?thesis by simp
      next
        case (Inr b)
        let ?x = "\<lparr> start = st, end' = (if end' r \<le>s b + step r then end' r else b),
                    step = step r, timeout = 0, query = query r \<rparr>"
        from 1(2) True Inr have "f r (b + step r) (reqs @ [?x]) = Some y" by simp
        from 1(1) [OF this] y obtain T where T: "S = (reqs @ [?x]) @ T" "covers r (b + step r) T"
          by blast
        from covers_Cons [OF True T(2)] T(1) show ?thesis by simp
      qed
    qed
  qed
qed

lemma splitQuery_covers:
  "splitQuery r = Some (Inr S) \<Longrightarrow> covers r (start r) S"
  using splitQuery_loop_covers [of r "start r" "[]" "Inr S"] by (simp add: splitQuery_def)

text \<open>
  C5, the code at a failing input.  For \<open>start = 0\<close>, \<open>end = 2 D\<close> and a step of 17 s, which
  does not divide a day, the first sub-request ends at \<open>D - step\<close> and the second starts at
  \<open>D\<close>, which is 6000 ms off the step grid of the request (\<open>(D - 0) % 17000 = 6000\<close>).  The
  request passes the resolution check (\<open>(end - start) / step \<le> 11000\<close>).
\<close>

theorem splitQuery_misaligned:
  "splitQuery \<lparr> start = 0, end' = 172800000, step = 17000, timeout = 0, query = ''foo'' \<rparr>
     = Some (Inr [\<lparr> start = 0, end' = 86383000, step = 17000, timeout = 0, query = ''foo'' \<rparr>,
                  \<lparr> start = 86400000, end' = 172800000, step = 17000, timeout = 0, query = ''foo'' \<rparr>])
   \<and> rem (86400000 - 0) 17000 = 6000
   \<and> quo (172800000 - 0) 17000 \<le>s 11000"
  by (simp add: splitQuery_eval splitQuery_loop.simps)

section \<open>The fan-out executor and the merger\<close>

lemma gather_firstErr:
  "firstErr g = None \<Longrightarrow> firstErr (gather arrivals g) = None"
  by (induction arrivals arbitrary: g) simp_all

lemma gather_responses:
  "firstErr g = None \<Longrightarrow> responses (gather arrivals g) = responses g @ filter (\<lambda>x. err x = None) arrivals"
  by (induction arrivals arbitrary: g) simp_all

text \<open>
  C1, the code at failing inputs.  \<open>firstErr\<close> is assigned only under \<open>firstErr != nil\<close>, so
  it stays \<open>nil\<close> whatever arrives.  With one sub-request that fails, \<open>responses\<close> is empty
  and \<open>responses[0]\<close> panics; with two sub-requests of which the first fails, \<open>Do\<close> returns
  the vector of the second as the merged response, and no error.
\<close>

theorem Do_drops_errors:
  "Do (\<lambda>q. (None, Some ''boom'')) (\<lambda>sent. sent) key mapOrder
      \<lparr> start = 0, end' = 3600000, step = 15000, timeout = 0, query = ''foo'' \<rparr>
     = Some (Inl (Panic IndexOutOfRange))
   \<and> Do (\<lambda>q. if start q = 0 then (None, Some ''boom'')
             else (Some \<lparr> Type = ValVector, Stats = None,
                          Result = Vector [Some (Sample [(''job'', ''a'')] 0 86400000)] \<rparr>, None))
        (\<lambda>sent. sent) key mapOrder
        \<lparr> start = 0, end' = 172800000, step = 15000, timeout = 0, query = ''foo'' \<rparr>
     = Some (Inr \<lparr> Type = ValVector, Stats = None,
                    Result = Vector [Some (Sample [(''job'', ''a'')] 0 86400000)] \<rparr>)
   \<and> firstErr (gather arrivals \<lparr> responses = [], firstErr = None, cancelled = False \<rparr>) = None"
  by (simp add: Do_def splitQuery_eval splitQuery_loop.simps mergeResponses_def byFirstTime_def
      vectorMerge_def gather_firstErr)

lemma Value_Type_Vector: "Value_Type v = ValVector \<longleftrightarrow> (\<exists>xs. v = Vector xs)"
  by (cases v) simp_all

lemma Value_Type_Matrix: "Value_Type v = ValMatrix \<longleftrightarrow> (\<exists>xs. v = Matrix xs)"
  by (cases v) simp_all












section \<open>Merging a single response\<close>

lemma byFirstTime_single [simp]: "byFirstTime [x] = [x]"
  by (simp add: byFirstTime_def)

lemma matrixMerge_streams_Inr:
  "None \<notin> set ms \<Longrightarrow> \<exists>out'. matrixMerge_streams key ms out = Inr out'"
  by (induction key ms out rule: matrixMerge_streams.induct)
     (auto split: option.splits SampleStream.splits)

text \<open>
  C3 (amended).  For a one-element list whose response holds a vector, the merger returns
  type vector and that vector unchanged; the merged response has no stats.  For a one-element
  list whose response holds a matrix (no nil stream), the merger returns type matrix and no
  stats.
\<close>

theorem merge_singleton:
  assumes "resp x = Some q"
  shows "(Result q = Vector v \<longrightarrow>
            mergeResponses key mapOrder [x] = Inr \<lparr> Type = ValVector, Stats = None, Result = Vector v \<rparr>)
       \<and> (Result q = Matrix m \<and> None \<notin> set m \<longrightarrow>
            (\<exists>res. mergeResponses key mapOrder [x]
                    = Inr \<lparr> Type = ValMatrix, Stats = None, Result = Matrix res \<rparr>))"
proof (intro conjI impI)
  assume "Result q = Vector v"
  with assms show "mergeResponses key mapOrder [x] = Inr \<lparr> Type = ValVector, Stats = None, Result = Vector v \<rparr>"
    by (simp add: mergeResponses_def vectorMerge_def)
next
  assume m: "Result q = Matrix m \<and> None \<notin> set m"
  then obtain out where "matrixMerge_streams key m [] = Inr out"
    using matrixMerge_streams_Inr by blast
  with assms m show "\<exists>res. mergeResponses key mapOrder [x]
      = Inr \<lparr> Type = ValMatrix, Stats = None, Result = Matrix res \<rparr>"
    by (simp add: mergeResponses_def matrixMerge_def)
qed

theorem merge_singleton_witness:
  "resp \<lparr> req = \<lparr> start = 0, end' = 3600000, step = 15000, timeout = 0, query = ''foo'' \<rparr>,
          resp = Some \<lparr> Type = ValVector, Stats = None,
                         Result = Vector [Some (Sample [(''job'', ''a'')] 0 3600000)] \<rparr>,
          err = None \<rparr>
     = Some \<lparr> Type = ValVector, Stats = None, Result = Vector [Some (Sample [(''job'', ''a'')] 0 3600000)] \<rparr>
   \<and> mergeResponses (\<lambda>m. ''{}'') (\<lambda>kvs. kvs)
        [\<lparr> req = \<lparr> start = 0, end' = 3600000, step = 15000, timeout = 0, query = ''foo'' \<rparr>,
            resp = Some \<lparr> Type = ValVector, Stats = None,
                           Result = Vector [Some (Sample [(''job'', ''a'')] 0 3600000)] \<rparr>,
            err = None \<rparr>]
     = Inr \<lparr> Type = ValVector, Stats = None, Result = Vector [Some (Sample [(''job'', ''a'')] 0 3600000)] \<rparr>
   \<and> resp \<lparr> req = \<lparr> start = 0, end' = 3600000, step = 15000, timeout = 0, query = ''foo'' \<rparr>,
          resp = Some \<lparr> Type = ValMatrix, Stats = None,
                         Result = Matrix [Some (SampleStream [] [SamplePair 1536763606651 0])] \<rparr>,
          err = None \<rparr>
     = Some \<lparr> Type = ValMatrix, Stats = None,
              Result = Matrix [Some (SampleStream [] [SamplePair 1536763606651 0])] \<rparr>
   \<and> None \<notin> set [Some (SampleStream [] [SamplePair 1536763606651 0])]
   \<and> (\<exists>res. mergeResponses (\<lambda>m. ''{}'') (\<lambda>kvs. kvs)
        [\<lparr> req = \<lparr> start = 0, end' = 3600000, step = 15000, timeout = 0, query = ''foo'' \<rparr>,
            resp = Some \<lparr> Type = ValMatrix, Stats = None,
                           Result = Matrix [Some (SampleStream [] [SamplePair 1536763606651 0])] \<rparr>,
            err = None \<rparr>]
     = Inr \<lparr> Type = ValMatrix, Stats = None, Result = Matrix res \<rparr>)"
proof -
  let ?qv = "\<lparr> Type = ValVector, Stats = None, Result = Vector [Some (Sample [(''job'', ''a'')] 0 3600000)] \<rparr>"
  let ?qm = "\<lparr> Type = ValMatrix, Stats = None,
              Result = Matrix [Some (SampleStream [] [SamplePair 1536763606651 0])] \<rparr>"
  let ?rq = "\<lparr> start = 0, end' = 3600000, step = 15000, timeout = 0, query = ''foo'' \<rparr>"
  let ?xv = "\<lparr> req = ?rq, resp = Some ?qv, err = None \<rparr>"
  let ?xm = "\<lparr> req = ?rq, resp = Some ?qm, err = None \<rparr>"
  have hv: "resp ?xv = Some ?qv" by simp
  have hm: "resp ?xm = Some ?qm" by simp
  have rv: "Result ?qv = Vector [Some (Sample [(''job'', ''a'')] 0 3600000)]" by simp
  have rm: "Result ?qm = Matrix [Some (SampleStream [] [SamplePair 1536763606651 0])]
      \<and> None \<notin> set [Some (SampleStream [] [SamplePair 1536763606651 0])]" by simp
  from merge_singleton [OF hv, where v = "[Some (Sample [(''job'', ''a'')] 0 3600000)]"
      and key = "\<lambda>m. ''{}''" and mapOrder = "\<lambda>kvs. kvs"] rv
  have 1: "mergeResponses (\<lambda>m. ''{}'') (\<lambda>kvs. kvs) [?xv] = Inr ?qv" by blast
  from merge_singleton [OF hm, where m = "[Some (SampleStream [] [SamplePair 1536763606651 0])]"
      and key = "\<lambda>m. ''{}''" and mapOrder = "\<lambda>kvs. kvs"] rm
  have 2: "\<exists>res. mergeResponses (\<lambda>m. ''{}'') (\<lambda>kvs. kvs) [?xm]
      = Inr \<lparr> Type = ValMatrix, Stats = None, Result = Matrix res \<rparr>" by blast
  from hv hm rm 1 2 show ?thesis by blast
qed

text \<open>
  Counterexample to C3 as stated: a sole response that carries stats.  The merged response
  has none, so it is not the sole element's response.
\<close>

theorem merge_singleton_counterexample:
  "mergeResponses (\<lambda>m. ''{}'') (\<lambda>kvs. kvs)
        [\<lparr> req = \<lparr> start = 0, end' = 3600000, step = 15000, timeout = 0, query = ''foo'' \<rparr>,
            resp = Some \<lparr> Type = ValVector, Stats = Some (QueryStats [0, 0, 0, 0, 0, 0]),
                           Result = Vector [Some (Sample [(''job'', ''a'')] 0 3600000)] \<rparr>,
            err = None \<rparr>]
     = Inr \<lparr> Type = ValVector, Stats = None, Result = Vector [Some (Sample [(''job'', ''a'')] 0 3600000)] \<rparr>
   \<and> mergeResponses (\<lambda>m. ''{}'') (\<lambda>kvs. kvs)
        [\<lparr> req = \<lparr> start = 0, end' = 3600000, step = 15000, timeout = 0, query = ''foo'' \<rparr>,
            resp = Some \<lparr> Type = ValVector, Stats = Some (QueryStats [0, 0, 0, 0, 0, 0]),
                           Result = Vector [Some (Sample [(''job'', ''a'')] 0 3600000)] \<rparr>,
            err = None \<rparr>]
     \<noteq> Inr \<lparr> Type = ValVector, Stats = Some (QueryStats [0, 0, 0, 0, 0, 0]),
              Result = Vector [Some (Sample [(''job'', ''a'')] 0 3600000)] \<rparr>"
  by (simp add: mergeResponses_def vectorMerge_def)

text \<open>
  The matrix merge of one response with one stream: the result slice starts with as many
  nil entries as there are streams.
\<close>

lemma matrixMerge_singleton_padding:
  "mergeResponses (\<lambda>m. ''{}'') (\<lambda>kvs. kvs)
        [\<lparr> req = \<lparr> start = 0, end' = 3600000, step = 15000, timeout = 0, query = ''foo'' \<rparr>,
            resp = Some \<lparr> Type = ValMatrix, Stats = None,
                           Result = Matrix [Some (SampleStream [] [SamplePair 1536763606651 0])] \<rparr>,
            err = None \<rparr>]
     = Inr \<lparr> Type = ValMatrix, Stats = None,
             Result = Matrix [None, Some (SampleStream [] [SamplePair 1536763606651 0])] \<rparr>"
  by (simp add: mergeResponses_def matrixMerge_def)


section \<open>Decoding a response\<close>

lemma envelope_rejected:
  "UnmarshalJSON lib (JObject [(''status'', JString ''success''), (''data'', d)])
     = Inl (Err (''unexpected value type '' @ quoted ''<ValNone>''))"
  by (simp add: UnmarshalJSON_def unmarshalWire_def toLower_def)

text \<open>
  C4, the code at the body of the claim.  \<open>queryRangeTerminator.Do\<close> hands the whole body to
  \<open>queryRangeResponse.UnmarshalJSON\<close>; the top-level object has the keys \<open>status\<close> and
  \<open>data\<close> and no \<open>resultType\<close>, the type stays \<open>ValNone\<close> and the result is the error
  \<open>unexpected value type "<ValNone>"\<close>, whatever the library decoders do.  The second
  conjunct: the \<open>data\<close> object alone is what the decoder accepts (its \<open>result\<close> goes to the
  library's matrix decoder).
\<close>

theorem terminator_rejects_envelope:
  "queryRangeTerminator_Do encodeTime encodeDurationMs lib
     (\<lambda>request. Inr \<lparr> StatusCode = 200, Header = [(''Content-Type'', ''application/json'')],
        Body = JObject [(''status'', JString ''success''),
                 (''data'', JObject [(''resultType'', JString ''matrix''),
                    (''result'', JArray [JObject [(''metric'', JObject []),
                       (''values'', JArray [JArray [JNumber ''1536763606.651'', JString ''137''],
                                            JArray [JNumber ''1536763607.651'', JString ''137'']])]])])] \<rparr>)
     r
   = Inl (Err (''unexpected value type '' @ quoted ''<ValNone>''))
   \<and> UnmarshalJSON lib
       (JObject [(''resultType'', JString ''matrix''),
          (''result'', JArray [JObject [(''metric'', JObject []),
             (''values'', JArray [JArray [JNumber ''1536763606.651'', JString ''137''],
                                  JArray [JNumber ''1536763607.651'', JString ''137'']])]])])
     = (case unmarshalMatrix lib
              (JArray [JObject [(''metric'', JObject []),
                 (''values'', JArray [JArray [JNumber ''1536763606.651'', JString ''137''],
                                      JArray [JNumber ''1536763607.651'', JString ''137'']])]]) of
          Inl e \<Rightarrow> Inl e
        | Inr mv \<Rightarrow> Inr \<lparr> Type = ValMatrix, Stats = None, Result = Matrix mv \<rparr>)"
  by (simp add: queryRangeTerminator_Do_def envelope_rejected)
     (simp add: UnmarshalJSON_def unmarshalWire_def toLower_def ValueType_ofString_def
        split: sum.split)

text \<open>
  C7, the code on its own output.  Whatever \<open>toHTTPResponse\<close> emits is an object with the
  keys \<open>status\<close> and \<open>data\<close>, and \<open>UnmarshalJSON\<close> rejects it: decoding an encoded response
  never gives the response back.
\<close>

theorem decode_of_encode_fails:
  assumes "toHTTPResponse lib x = Inr response"
  shows "UnmarshalJSON lib (Body response)
    = Inl (Err (''unexpected value type '' @ quoted ''<ValNone>''))"
proof -
  from assms obtain d where "Body response = JObject [(''status'', JString ''success''), (''data'', d)]"
    by (auto simp: toHTTPResponse_def split: sum.splits)
  then show ?thesis by (simp add: envelope_rejected)
qed

theorem decode_of_encode_fails_witness:
  "toHTTPResponse
      \<lparr> unmarshalVector = (\<lambda>j. Inr []), unmarshalMatrix = (\<lambda>j. Inr []),
        unmarshalStats = (\<lambda>j. Inr None), marshalValue = (\<lambda>v. Inr (JArray [])),
        marshalStats = (\<lambda>s. Inr JNull) \<rparr>
      \<lparr> Type = ValMatrix, Stats = None, Result = Matrix [] \<rparr>
     = Inr \<lparr> StatusCode = 200, Header = [(''Content-Type'', ''application/json'')],
             Body = JObject [(''status'', JString ''success''),
                      (''data'', JObject [(''resultType'', JString ''matrix''), (''result'', JArray [])])] \<rparr>
   \<and> UnmarshalJSON
      \<lparr> unmarshalVector = (\<lambda>j. Inr []), unmarshalMatrix = (\<lambda>j. Inr []),
        unmarshalStats = (\<lambda>j. Inr None), marshalValue = (\<lambda>v. Inr (JArray [])),
        marshalStats = (\<lambda>s. Inr JNull) \<rparr>
      (Body \<lparr> StatusCode = 200, Header = [(''Content-Type'', ''application/json'')],
             Body = JObject [(''status'', JString ''success''),
                      (''data'', JObject [(''resultType'', JString ''matrix''), (''result'', JArray [])])] \<rparr>)
     = Inl (Err (''unexpected value type '' @ quoted ''<ValNone>''))"
proof -
  let ?lib = "\<lparr> unmarshalVector = (\<lambda>j. Inr []), unmarshalMatrix = (\<lambda>j. Inr []),
        unmarshalStats = (\<lambda>j. Inr None), marshalValue = (\<lambda>v. Inr (JArray [])),
        marshalStats = (\<lambda>s. Inr JNull) \<rparr>"
  let ?resp = "\<lparr> StatusCode = 200, Header = [(''Content-Type'', ''application/json'')],
             Body = JObject [(''status'', JString ''success''),
                      (''data'', JObject [(''resultType'', JString ''matrix''), (''result'', JArray [])])] \<rparr>"
  have h: "toHTTPResponse ?lib \<lparr> Type = ValMatrix, Stats = None, Result = Matrix [] \<rparr> = Inr ?resp"
    by (simp add: toHTTPResponse_def marshalResponse_def)
  from h decode_of_encode_fails [OF h] show ?thesis by (rule conjI)
qed


section \<open>Validating a request\<close>

lemma parseTime_message:
  "parseTime nl v = Inl e \<Longrightarrow> e = Err (''cannot parse '' @ quote nl v @ '' to a valid timestamp'')"
  by (auto simp: parseTime_def split: option.splits)

lemma parseDurationMs_message:
  "parseDurationMs nl v = Inl e \<Longrightarrow>
     e = Err (''cannot parse '' @ quote nl v @ '' to a valid duration'')
   \<or> e = Err (''cannot parse '' @ quote nl v @ '' to a valid duration. It overflows int64'')"
  by (auto simp: parseDurationMs_def split: option.splits)

text \<open>
  C9 (amended).  \<open>parseQueryRangeRequest\<close> checks in this order: start parses, end parses,
  end is not before start, step parses, step is positive, at most 11000 points.  The first
  check that fails decides the error, with the messages below (the last two end in a
  hint); when all pass the request is returned.  When parsing fails, \<open>RoundTrip\<close> returns
  the error having called neither the middleware nor the downstream round tripper.
\<close>

theorem parseQueryRangeRequest_validation:
  "(parseTime nl (FormValue r ''start'') = Inl e \<longrightarrow>
      parseQueryRangeRequest nl r = Inl e
      \<and> e = Err (''cannot parse '' @ quote nl (FormValue r ''start'') @ '' to a valid timestamp''))
   \<and> (parseTime nl (FormValue r ''start'') = Inr s \<longrightarrow>
      (parseTime nl (FormValue r ''end'') = Inl e \<longrightarrow>
         parseQueryRangeRequest nl r = Inl e
         \<and> e = Err (''cannot parse '' @ quote nl (FormValue r ''end'') @ '' to a valid timestamp''))
    \<and> (parseTime nl (FormValue r ''end'') = Inr en \<longrightarrow>
         (en <s s \<longrightarrow>
            parseQueryRangeRequest nl r = Inl (Err ''end timestamp must not be before start time''))
       \<and> (\<not> en <s s \<longrightarrow>
            (parseDurationMs nl (FormValue r ''step'') = Inl e \<longrightarrow>
               parseQueryRangeRequest nl r = Inl e
               \<and> (e = Err (''cannot parse '' @ quote nl (FormValue r ''step'') @ '' to a valid duration'')
                  \<or> e = Err (''cannot parse '' @ quote nl (FormValue r ''step'')
                              @ '' to a valid duration. It overflows int64'')))
          \<and> (parseDurationMs nl (FormValue r ''step'') = Inr st \<longrightarrow>
               (st \<le>s 0 \<longrightarrow>
                  parseQueryRangeRequest nl r = Inl (Err
                    ''zero or negative query resolution step widths are not accepted. Try a positive integer''))
             \<and> (0 <s st \<and> 11000 <s quo (en - s) st \<longrightarrow>
                  parseQueryRangeRequest nl r = Inl (Err
                    ''exceeded maximum resolution of 11,000 points per timeseries. Try decreasing the query resolution (?step=XX)''))
             \<and> (0 <s st \<and> quo (en - s) st \<le>s 11000 \<longrightarrow>
                  parseQueryRangeRequest nl r
                    = Inr \<lparr> start = s, end' = en, step = st, timeout = 0,
                            query = FormValue r ''query'' \<rparr>)))))
   \<and> (suffix ''/query_range'' (Path r) \<and> parseQueryRangeRequest nl r = Inl e \<longrightarrow>
        RoundTrip nl lib downstream middleware r = ([], Inl e))"
proof -
  have C: "a <s b \<Longrightarrow> \<not> b \<le>s a" for a b :: int64
    by (simp add: word_sless_alt word_sle_eq)
  have D: "a \<le>s b \<Longrightarrow> \<not> b <s a" for a b :: int64
    by (simp add: word_sless_alt word_sle_eq)
  show ?thesis
    by (intro conjI impI; (elim conjE)?)
       (auto simp add: parseQueryRangeRequest_def RoundTrip_def C D
          dest: parseTime_message parseDurationMs_message)
qed


lemmas testlib_eval = parseTime_def parseDurationMs_def FormValue_def testlib_def quoted_def
  quo_def signed_divide_int_def word_sless_alt word_sle_eq

text \<open>
  The witness: the request table of the repository's tests, one request per check, and a
  request that passes them all.
\<close>

theorem parseQueryRangeRequest_validation_witness:
  "parseQueryRangeRequest testlib
      \<lparr> Method = ''GET'', Path = ''api/v1/query_range'', Query = [(''start'', ''foo'')] \<rparr>
     = Inl (Err (''cannot parse '' @ quoted ''foo'' @ '' to a valid timestamp''))
   \<and> parseQueryRangeRequest testlib
      \<lparr> Method = ''GET'', Path = ''api/v1/query_range'',
        Query = [(''start'', ''123''), (''end'', ''bar'')] \<rparr>
     = Inl (Err (''cannot parse '' @ quoted ''bar'' @ '' to a valid timestamp''))
   \<and> parseQueryRangeRequest testlib
      \<lparr> Method = ''GET'', Path = ''api/v1/query_range'',
        Query = [(''start'', ''123''), (''end'', ''0'')] \<rparr>
     = Inl (Err ''end timestamp must not be before start time'')
   \<and> parseQueryRangeRequest testlib
      \<lparr> Method = ''GET'', Path = ''api/v1/query_range'',
        Query = [(''start'', ''123''), (''end'', ''456''), (''step'', ''baz'')] \<rparr>
     = Inl (Err (''cannot parse '' @ quoted ''baz'' @ '' to a valid duration''))
   \<and> parseQueryRangeRequest testlib
      \<lparr> Method = ''GET'', Path = ''api/v1/query_range'',
        Query = [(''start'', ''123''), (''end'', ''456''), (''step'', ''-1'')] \<rparr>
     = Inl (Err ''zero or negative query resolution step widths are not accepted. Try a positive integer'')
   \<and> parseQueryRangeRequest testlib
      \<lparr> Method = ''GET'', Path = ''api/v1/query_range'',
        Query = [(''start'', ''0''), (''end'', ''11001''), (''step'', ''1'')] \<rparr>
     = Inl (Err ''exceeded maximum resolution of 11,000 points per timeseries. Try decreasing the query resolution (?step=XX)'')
   \<and> parseQueryRangeRequest testlib
      \<lparr> Method = ''GET'', Path = ''api/v1/query_range'',
        Query = [(''start'', ''0''), (''end'', ''456''), (''step'', ''1''), (''query'', ''foo'')] \<rparr>
     = Inr \<lparr> start = 0, end' = 456000, step = 1000, timeout = 0, query = ''foo'' \<rparr>
   \<and> RoundTrip testlib
      \<lparr> unmarshalVector = (\<lambda>j. Inr []), unmarshalMatrix = (\<lambda>j. Inr []),
        unmarshalStats = (\<lambda>j. Inr None), marshalValue = (\<lambda>v. Inr (JArray [])),
        marshalStats = (\<lambda>s. Inr JNull) \<rparr>
      (\<lambda>request. Inl (Err ''downstream'')) (\<lambda>request. Inl (Err ''middleware''))
      \<lparr> Method = ''GET'', Path = ''api/v1/query_range'', Query = [(''start'', ''foo'')] \<rparr>
     = ([], Inl (Err (''cannot parse '' @ quoted ''foo'' @ '' to a valid timestamp'')))"
proof -
  let ?r1 = "\<lparr> Method = ''GET'', Path = ''api/v1/query_range'', Query = [(''start'', ''foo'')] \<rparr>"
  let ?r2 = "\<lparr> Method = ''GET'', Path = ''api/v1/query_range'',
        Query = [(''start'', ''123''), (''end'', ''bar'')] \<rparr>"
  let ?r3 = "\<lparr> Method = ''GET'', Path = ''api/v1/query_range'',
        Query = [(''start'', ''123''), (''end'', ''0'')] \<rparr>"
  let ?r4 = "\<lparr> Method = ''GET'', Path = ''api/v1/query_range'',
        Query = [(''start'', ''123''), (''end'', ''456''), (''step'', ''baz'')] \<rparr>"
  let ?r5 = "\<lparr> Method = ''GET'', Path = ''api/v1/query_range'',
        Query = [(''start'', ''123''), (''end'', ''456''), (''step'', ''-1'')] \<rparr>"
  let ?r6 = "\<lparr> Method = ''GET'', Path = ''api/v1/query_range'',
        Query = [(''start'', ''0''), (''end'', ''11001''), (''step'', ''1'')] \<rparr>"
  let ?r7 = "\<lparr> Method = ''GET'', Path = ''api/v1/query_range'',
        Query = [(''start'', ''0''), (''end'', ''456''), (''step'', ''1''), (''query'', ''foo'')] \<rparr>"
  let ?e1 = "Err (''cannot parse '' @ quoted ''foo'' @ '' to a valid timestamp'')"
  let ?lib = "\<lparr> unmarshalVector = (\<lambda>j. Inr []), unmarshalMatrix = (\<lambda>j. Inr []),
        unmarshalStats = (\<lambda>j. Inr None), marshalValue = (\<lambda>v. Inr (JArray [])),
        marshalStats = (\<lambda>s. Inr JNull) \<rparr>"
  have sfx: "suffix ''/query_range'' ''api/v1/query_range''"
    by (simp add: suffix_def)
  have 1: "parseQueryRangeRequest testlib ?r1 = Inl ?e1"
    using parseQueryRangeRequest_validation [where nl = testlib and r = ?r1 and e = ?e1]
    by (simp add: testlib_eval)
  have 8: "RoundTrip testlib ?lib (\<lambda>request. Inl (Err ''downstream'')) (\<lambda>request. Inl (Err ''middleware'')) ?r1
      = ([], Inl ?e1)"
    using parseQueryRangeRequest_validation [where nl = testlib and r = ?r1 and e = ?e1
        and lib = ?lib and downstream = "\<lambda>request. Inl (Err ''downstream'')"
        and middleware = "\<lambda>request. Inl (Err ''middleware'')"] 1 sfx
    by simp
  have 2: "parseQueryRangeRequest testlib ?r2
      = Inl (Err (''cannot parse '' @ quoted ''bar'' @ '' to a valid timestamp''))"
    using parseQueryRangeRequest_validation [where nl = testlib and r = ?r2 and s = 123000
        and e = "Err (''cannot parse '' @ quoted ''bar'' @ '' to a valid timestamp'')"]
    by (simp add: testlib_eval)
  have 3: "parseQueryRangeRequest testlib ?r3 = Inl (Err ''end timestamp must not be before start time'')"
    using parseQueryRangeRequest_validation [where nl = testlib and r = ?r3 and s = 123000 and en = 0]
    by (simp add: testlib_eval)
  have 4: "parseQueryRangeRequest testlib ?r4
      = Inl (Err (''cannot parse '' @ quoted ''baz'' @ '' to a valid duration''))"
    using parseQueryRangeRequest_validation [where nl = testlib and r = ?r4 and s = 123000
        and en = 456000 and e = "Err (''cannot parse '' @ quoted ''baz'' @ '' to a valid duration'')"]
    by (simp add: testlib_eval)
  have 5: "parseQueryRangeRequest testlib ?r5
      = Inl (Err ''zero or negative query resolution step widths are not accepted. Try a positive integer'')"
    using parseQueryRangeRequest_validation [where nl = testlib and r = ?r5 and s = 123000
        and en = 456000 and st = "- 1000"]
    by (simp add: testlib_eval)
  have 6: "parseQueryRangeRequest testlib ?r6
      = Inl (Err ''exceeded maximum resolution of 11,000 points per timeseries. Try decreasing the query resolution (?step=XX)'')"
    using parseQueryRangeRequest_validation [where nl = testlib and r = ?r6 and s = 0
        and en = 11001000 and st = 1000]
    by (simp add: testlib_eval)
  have 7: "parseQueryRangeRequest testlib ?r7
      = Inr \<lparr> start = 0, end' = 456000, step = 1000, timeout = 0, query = ''foo'' \<rparr>"
    using parseQueryRangeRequest_validation [where nl = testlib and r = ?r7 and s = 0
        and en = 456000 and st = 1000]
    by (simp add: testlib_eval)
  from 1 2 3 4 5 6 7 8 show ?thesis by (intro conjI)
qed

text \<open>
  Counterexample to C9 as stated: for \<open>start=0&end=11001&step=1\<close> the message is not the
  one the specification gives, it goes on with a hint.
\<close>

theorem parseQueryRangeRequest_message_counterexample:
  "parseQueryRangeRequest testlib
      \<lparr> Method = ''GET'', Path = ''api/v1/query_range'',
        Query = [(''start'', ''0''), (''end'', ''11001''), (''step'', ''1'')] \<rparr>
     = Inl (Err ''exceeded maximum resolution of 11,000 points per timeseries. Try decreasing the query resolution (?step=XX)'')
   \<and> parseQueryRangeRequest testlib
      \<lparr> Method = ''GET'', Path = ''api/v1/query_range'',
        Query = [(''start'', ''0''), (''end'', ''11001''), (''step'', ''1'')] \<rparr>
     \<noteq> Inl (Err ''exceeded maximum resolution of 11,000 points per timeseries'')"
  by (simp add: parseQueryRangeRequest_def testlib_eval)

section \<open>The request round trip\<close>

lemma bits_eq: "2 ^ k \<le> n \<Longrightarrow> n < 2 ^ Suc k \<Longrightarrow> bits n = Suc k"
proof (induction k arbitrary: n)
  case 0
  then have "n = 1" by simp
  then show ?case by (simp add: bits.simps)
next
  case (Suc k)
  then have "2 ^ k \<le> n div 2" "n div 2 < 2 ^ Suc k" by auto
  then have "bits (n div 2) = Suc k" by (rule Suc.IH)
  moreover from Suc.prems have "n \<noteq> 0" by auto
  ultimately show ?case by (subst bits.simps) simp
qed

lemma ilog2_eq:
  assumes "2 ^ k \<le> x" "x < 2 ^ Suc k"
  shows "ilog2 x = int k"
proof -
  have one: "1 \<le> x" using assms(1) one_le_power [of "2 :: rat" k] by linarith
  have "(2 :: int) ^ k \<le> \<lfloor>x\<rfloor>"
    using assms(1) by (simp add: le_floor_iff)
  moreover have "\<lfloor>x\<rfloor> < (2 :: int) ^ Suc k"
    using assms(2) by (simp add: floor_less_iff)
  moreover from one have "0 \<le> \<lfloor>x\<rfloor>" by simp
  ultimately have "int (2 ^ k) \<le> int (nat \<lfloor>x\<rfloor>)" "int (nat \<lfloor>x\<rfloor>) < int (2 ^ Suc k)"
    by simp_all
  then have "2 ^ k \<le> nat \<lfloor>x\<rfloor>" "nat \<lfloor>x\<rfloor> < 2 ^ Suc k"
    by (simp_all only: of_nat_le_iff of_nat_less_iff)
  then have "bits (nat \<lfloor>x\<rfloor>) = Suc k" by (rule bits_eq)
  with one show ?thesis by (simp add: ilog2_def)
qed

lemma roundEven_eq:
  assumes "\<bar>z - of_int m\<bar> < 1 / 2"
  shows "roundEven z = m"
proof (cases "of_int m \<le> z")
  case True
  with assms have "\<lfloor>z\<rfloor> = m" by (simp add: floor_eq_iff; linarith?)
  with assms True show ?thesis by (simp add: roundEven_def Let_def)
next
  case False
  with assms have f: "\<lfloor>z\<rfloor> = m - 1" by (simp add: floor_eq_iff; linarith?)
  from False assms have "1 / 2 < z - of_int (m - 1)" by (simp; linarith?)
  with f show ?thesis by (simp add: roundEven_def Let_def)
qed

lemma RN_cert:
  assumes lo: "2 ^ k \<le> x" and hi: "x < 2 ^ Suc k" and k: "k < 1023"
    and m: "\<bar>x / pow2 (int k - 52) - of_int m\<bar> < 1 / 2"
  shows "RN x = Finite (of_int m * pow2 (int k - 52))"
proof -
  have pos: "0 < x" using lo zero_less_power [of "2 :: rat" k] by linarith
  then have ax: "\<bar>x\<bar> = x" by simp
  have e: "max (ilog2 \<bar>x\<bar> - 52) (- 1074) = int k - 52"
    using ilog2_eq [OF lo hi] by (simp add: ax)
  have r: "roundEven (x / pow2 (int k - 52)) = m"
    using m by (rule roundEven_eq)
  have p: "0 < pow2 (int k - 52)" by (simp add: pow2_def)
  have scale: "pow2 (int k - 52) * 2 ^ 53 = 2 ^ Suc k"
  proof (cases "52 \<le> k")
    case True
    then have "pow2 (int k - 52) = 2 ^ (k - 52)"
      by (simp add: pow2_def nat_diff_distrib')
    then have "pow2 (int k - 52) * 2 ^ 53 = (2 :: rat) ^ (k - 52 + 53)"
      by (simp only: power_add)
    with True show ?thesis by (simp add: Suc_diff_le)
  next
    case False
    then have n: "nat (52 - int k) = 52 - k" by simp
    from False have "pow2 (int k - 52) = 1 / 2 ^ (52 - k)"
      by (simp add: pow2_def n)
    moreover have "(2 :: rat) ^ 53 = 2 ^ (52 - k) * 2 ^ Suc k"
    proof -
      from False have "52 - k + Suc k = 53" by simp
      then show ?thesis by (simp only: power_add [symmetric])
    qed
    ultimately have "pow2 (int k - 52) * 2 ^ 53 = 1 / 2 ^ (52 - k) * (2 ^ (52 - k) * 2 ^ Suc k)"
      by (simp only:)
    also have "\<dots> = 2 ^ Suc k" by simp
    finally show ?thesis .
  qed
  from m have "of_int m < x / pow2 (int k - 52) + 1 / 2" "x / pow2 (int k - 52) - 1 / 2 < of_int m"
    by linarith+
  moreover from hi p scale have "x / pow2 (int k - 52) < 2 ^ 53"
    by (simp add: pos_divide_less_eq mult.commute)
  moreover from pos p have "0 < x / pow2 (int k - 52)" by simp
  ultimately have "(of_int m :: rat) < 2 ^ 53 + 1 / 2" "- (1 / 2) < (of_int m :: rat)"
    by linarith+
  then have "(of_int m :: rat) < of_int (2 ^ 53 + 1)" "(of_int (- 1) :: rat) < of_int m"
    by simp_all
  then have "m < 2 ^ 53 + 1" "- 1 < m"
    by (simp_all only: of_int_less_iff)
  then have mb: "m \<le> 2 ^ 53" "0 \<le> m" by simp_all
  then have "(of_int m :: rat) \<le> of_int (2 ^ 53)" "(of_int 0 :: rat) \<le> of_int m"
    by (simp_all only: of_int_le_iff)
  then have "(of_int m :: rat) \<le> 2 ^ 53" "(0 :: rat) \<le> of_int m"
    by simp_all
  with p have "of_int m * pow2 (int k - 52) \<le> 2 ^ 53 * pow2 (int k - 52)"
    and nn: "0 \<le> of_int m * pow2 (int k - 52)"
    by (simp_all add: mult_right_mono)
  with scale have "of_int m * pow2 (int k - 52) \<le> 2 ^ Suc k" by (simp only: mult.commute)
  moreover from k have "(2 :: rat) ^ Suc k < 2 ^ 1024"
    by (intro power_strict_increasing) simp_all
  ultimately have "of_int m * pow2 (int k - 52) < 2 ^ 1024" by (rule le_less_trans)
  with nn have "\<bar>of_int m * pow2 (int k - 52)\<bar> < 2 ^ 1024" by (simp only: abs_of_nonneg)
  then have small: "\<not> 2 ^ 1024 \<le> \<bar>of_int m * pow2 (int k - 52)\<bar>" by (simp only: not_le)
  from pos have "x \<noteq> 0" by simp
  then show ?thesis
    by (simp only: RN_def Let_def e r small if_False)
qed

lemma RN_start: "RN 1536763606001 = Finite 1536763606001"
  using RN_cert [of 40 1536763606001 "1536763606001 * 4096"] by (simp add: pow2_def)

lemma RN_end: "RN 1536763666001 = Finite 1536763666001"
  using RN_cert [of 40 1536763666001 "1536763666001 * 4096"] by (simp add: pow2_def)

lemma RN_step: "RN 15000 = Finite 15000"
  using RN_cert [of 13 15000 "15000 * 549755813888"] by (simp add: pow2_def)

lemma RN_15: "RN 15 = Finite 15"
  using RN_cert [of 3 15 "15 * 562949953421312"] by (simp add: pow2_def)

lemma RN_start_s: "RN (1536763606001 / 1000) = Finite (3222826869852209 / 2097152)"
  using RN_cert [of 30 "1536763606001 / 1000" 6445653739704418] by (simp add: pow2_def)

lemma RN_end_s: "RN (1536763666001 / 1000) = Finite (3222826995681329 / 2097152)"
  using RN_cert [of 30 "1536763666001 / 1000" 6445653991362658] by (simp add: pow2_def)

lemma RN_ns: "RN (4095703125 / 4096) = Finite (4095703125 / 4096)"
  using RN_cert [of 19 "4095703125 / 4096" "4095703125 * 2097152"] by (simp add: pow2_def)

lemma trunc_start: "trunc (3222826869852209 / 2097152) = 1536763606"
  by (simp add: trunc_def floor_eq_iff)

lemma trunc_end: "trunc (3222826995681329 / 2097152) = 1536763666"
  by (simp add: trunc_def floor_eq_iff)

lemma trunc_ns: "trunc (4095703125 / 4096) = 999927"
  by (simp add: trunc_def floor_eq_iff)

lemma trunc_int: "trunc (of_int n) = n"
  by (simp add: trunc_def)

lemma trunc_numeral: "trunc (numeral n) = numeral n"
  by (simp add: trunc_def)

lemma encodeTime_start: "encodeTime_src exampleFormatFloat 1536763606001 = ''1536763606.001''"
  by (simp add: encodeTime_src_def float64_of_int64_def RN_start exampleFormatFloat_def)

lemma encodeTime_end: "encodeTime_src exampleFormatFloat 1536763666001 = ''1536763666.001''"
  by (simp add: encodeTime_src_def float64_of_int64_def RN_end exampleFormatFloat_def RN_start_s RN_end_s)

lemma encodeDurationMs_step: "encodeDurationMs_src exampleFormatFloat 15000 = ''15''"
  by (simp add: encodeDurationMs_src_def float64_of_int64_def RN_step exampleFormatFloat_def
      RN_start_s RN_end_s RN_15)

lemma floatTime_start:
  "floatTime_src exampleParseFloat impl ''1536763606.001'' = Some 1536763606000"
proof -
  have frac: "(3222826869852209 / 2097152 - 1536763606) * 1000000000 = (4095703125 / 4096 :: rat)"
    by simp
  show ?thesis
    by (simp add: floatTime_src_def exampleParseFloat_def RN_start_s trunc_start frac RN_ns trunc_ns trunc_numeral
        UnixNano_def quo_def signed_divide_int_def)
qed

lemma floatTime_end:
  "floatTime_src exampleParseFloat impl ''1536763666.001'' = Some 1536763666000"
proof -
  have frac: "(3222826995681329 / 2097152 - 1536763666) * 1000000000 = (4095703125 / 4096 :: rat)"
    by simp
  show ?thesis
    by (simp add: floatTime_src_def exampleParseFloat_def RN_end_s trunc_end frac RN_ns trunc_ns trunc_numeral
        UnixNano_def quo_def signed_divide_int_def)
qed

lemma floatDurationMs_step:
  "floatDurationMs_src exampleParseFloat impl ''15'' = Some (Some 15000)"
  using trunc_int [of 15000]
  by (simp add: floatDurationMs_src_def exampleParseFloat_def RN_15 RN_step)

text \<open>
  C6, the code at a failing input.  The request with start \<open>1536763606001\<close>, end
  \<open>1536763666001\<close> and step \<open>15000\<close> is emitted with \<open>start=1536763606.001\<close>,
  \<open>end=1536763666.001\<close> and \<open>step=15\<close>.  Parsing that request, \<open>math.Modf\<close> leaves the
  fraction \<open>2097 / 2097152\<close>, just below \<open>0.001\<close>; times \<open>1e9\<close> it is \<open>999927.52...\<close>
  nanoseconds, which \<open>int64(...)\<close> cuts to \<open>999927\<close>, and the division by \<open>1e6\<close> gives a
  start and an end one millisecond lower than those of the request emitted.
\<close>

theorem request_roundtrip_loses_millisecond:
  "toHTTPRequest (encodeTime_src exampleFormatFloat) (encodeDurationMs_src exampleFormatFloat)
      \<lparr> start = 1536763606001, end' = 1536763666001, step = 15000, timeout = 0, query = ''foo'' \<rparr>
     = \<lparr> Method = ''GET'', Path = ''/query_range'',
         Query = [(''end'', ''1536763666.001''), (''query'', ''foo''),
                  (''start'', ''1536763606.001''), (''step'', ''15'')] \<rparr>
   \<and> parseQueryRangeRequest (floatlib exampleParseFloat impl (\<lambda>s. None) (\<lambda>s. None) quoted)
       (toHTTPRequest (encodeTime_src exampleFormatFloat) (encodeDurationMs_src exampleFormatFloat)
          \<lparr> start = 1536763606001, end' = 1536763666001, step = 15000, timeout = 0, query = ''foo'' \<rparr>)
     = Inr \<lparr> start = 1536763606000, end' = 1536763666000, step = 15000, timeout = 0, query = ''foo'' \<rparr>
   \<and> parseQueryRangeRequest (floatlib exampleParseFloat impl (\<lambda>s. None) (\<lambda>s. None) quoted)
       (toHTTPRequest (encodeTime_src exampleFormatFloat) (encodeDurationMs_src exampleFormatFloat)
          \<lparr> start = 1536763606001, end' = 1536763666001, step = 15000, timeout = 0, query = ''foo'' \<rparr>)
     \<noteq> Inr \<lparr> start = 1536763606001, end' = 1536763666001, step = 15000, timeout = 0, query = ''foo'' \<rparr>"
  by (simp add: toHTTPRequest_def encodeTime_start encodeTime_end encodeDurationMs_step
      parseQueryRangeRequest_def parseTime_def parseDurationMs_def FormValue_def floatlib_def
      floatTime_start floatTime_end floatDurationMs_step
      quo_def signed_divide_int_def word_sless_alt word_sle_eq)

end
